theory Spec2Isabelle
  imports Main "HOL-Library.Word" "HOL-Library.List_Lexorder" "HOL-Library.Char_ord"
begin

section \<open>Storage layer (storage.py)\<close>

text \<open>
  Chat identifiers are the integers Telegram hands out; they are stored in SQLite
  \<^verbatim>\<open>INTEGER\<close> columns, which hold signed 64-bit values. The program never
  computes with them: it only compares them for equality and tests them for
  truthiness (non-zero), so a 64-bit word carries exactly the values the store can hold.
\<close>

type_synonym chat_id = "64 word"

text \<open>The dataclass \<^verbatim>\<open>Project\<close>.\<close>

record Project =
  slug :: string
  customer_chat_id :: "chat_id option"
  executor_chat_id :: "chat_id option"
  is_active :: bool

text \<open>
  One row of the table \<^verbatim>\<open>projects\<close>: \<^verbatim>\<open>slug TEXT PRIMARY KEY,
  customer_chat_id INTEGER, executor_chat_id INTEGER, is_active INTEGER DEFAULT 1\<close>.
  The two chat columns are nullable (\<open>None\<close> is SQL \<^verbatim>\<open>NULL\<close>).
\<close>

record row =
  col_slug :: string
  col_customer_chat_id :: "chat_id option"
  col_executor_chat_id :: "chat_id option"
  col_is_active :: int

text \<open>
  The table is the list of its rows in rowid order. The program never deletes a row, so
  rowid order is the order of insertion, and it is the order in which SQLite scans the
  table for a \<^verbatim>\<open>SELECT\<close> that has no \<^verbatim>\<open>ORDER BY\<close> and no index on the
  columns it filters by (the only index is the primary key's, on \<^verbatim>\<open>slug\<close>).
  \<^verbatim>\<open>fetchone()\<close> returns the first row of that scan.
\<close>

type_synonym projects = "row list"

text \<open>Every failure of the storage layer is a \<^verbatim>\<open>ValueError\<close> with a message.\<close>

datatype error = ValueError string

definition row_to_project :: "row \<Rightarrow> Project" where
  "row_to_project r =
     \<lparr>slug = col_slug r,
      customer_chat_id = col_customer_chat_id r,
      executor_chat_id = col_executor_chat_id r,
      is_active = (col_is_active r \<noteq> 0)\<rparr>"

text \<open>\<^verbatim>\<open>SELECT ... FROM projects WHERE slug = ?\<close> followed by \<^verbatim>\<open>fetchone()\<close>.\<close>

definition select_by_slug :: "projects \<Rightarrow> string \<Rightarrow> row option" where
  "select_by_slug db s = find (\<lambda>r. col_slug r = s) db"

definition find_by_slug :: "projects \<Rightarrow> string \<Rightarrow> Project option" where
  "find_by_slug db s =
     (case select_by_slug db s of
        Some r \<Rightarrow> Some (row_to_project r)
      | None \<Rightarrow> None)"

text \<open>
  \<^verbatim>\<open>create_project\<close>: the result is the store after the call, paired with the
  returned project or the raised error.
\<close>

definition create_project :: "projects \<Rightarrow> string \<Rightarrow> chat_id \<Rightarrow> projects \<times> (error + Project)" where
  "create_project db s executor =
     (case select_by_slug db s of
        Some r \<Rightarrow> (db, Inl (ValueError ''Project already exists''))
      | None \<Rightarrow>
          (db @ [\<lparr>col_slug = s, col_customer_chat_id = None,
                   col_executor_chat_id = Some executor, col_is_active = 1\<rparr>],
           Inr \<lparr>slug = s, customer_chat_id = None,
                executor_chat_id = Some executor, is_active = True\<rparr>))"

text \<open>
  \<^verbatim>\<open>UPDATE projects SET customer_chat_id = ?, is_active = 1 WHERE slug = ?\<close>
  rewrites every row whose slug matches.
\<close>

definition update_customer :: "projects \<Rightarrow> string \<Rightarrow> chat_id \<Rightarrow> projects" where
  "update_customer db s chat =
     map (\<lambda>r. if col_slug r = s
               then r\<lparr>col_customer_chat_id := Some chat, col_is_active := 1\<rparr>
               else r) db"

definition bind_customer_chat :: "projects \<Rightarrow> string \<Rightarrow> chat_id \<Rightarrow> projects \<times> (error + Project)" where
  "bind_customer_chat db s chat =
     (case find_by_slug db s of
        None \<Rightarrow> (db, Inl (ValueError ''Project not found''))
      | Some project \<Rightarrow>
          (update_customer db s chat,
           Inr (project\<lparr>customer_chat_id := Some chat, is_active := True\<rparr>)))"

text \<open>
  \<^verbatim>\<open>find_by_chat_id\<close>: the first row, in scan order, whose customer or executor
  column equals the chat; a \<^verbatim>\<open>NULL\<close> column equals nothing. The role is decided
  on the returned project by comparing its customer column first.
\<close>

definition select_by_chat_id :: "projects \<Rightarrow> chat_id \<Rightarrow> row option" where
  "select_by_chat_id db chat =
     find (\<lambda>r. col_customer_chat_id r = Some chat \<or> col_executor_chat_id r = Some chat) db"

definition find_by_chat_id :: "projects \<Rightarrow> chat_id \<Rightarrow> (Project \<times> string) option" where
  "find_by_chat_id db chat =
     (case select_by_chat_id db chat of
        None \<Rightarrow> None
      | Some r \<Rightarrow>
          (let project = row_to_project r;
               role = (if customer_chat_id project = Some chat then ''customer'' else ''executor'')
           in Some (project, role)))"

text \<open>
  \<^verbatim>\<open>UPDATE projects SET customer_chat_id = ?, executor_chat_id = ?, is_active = 0
  WHERE slug = ?\<close>.
\<close>

definition update_unlink :: "projects \<Rightarrow> string \<Rightarrow> chat_id option \<Rightarrow> chat_id option \<Rightarrow> projects" where
  "update_unlink db s new_customer new_executor =
     map (\<lambda>r. if col_slug r = s
               then r\<lparr>col_customer_chat_id := new_customer,
                      col_executor_chat_id := new_executor, col_is_active := 0\<rparr>
               else r) db"

definition unlink_chat :: "projects \<Rightarrow> string \<Rightarrow> chat_id \<Rightarrow> projects \<times> (error + Project)" where
  "unlink_chat db s chat =
     (case find_by_slug db s of
        None \<Rightarrow> (db, Inl (ValueError ''Project not found''))
      | Some project \<Rightarrow>
          (let new_customer =
                 (if Some chat = customer_chat_id project then None else customer_chat_id project);
               new_executor =
                 (if Some chat = executor_chat_id project then None else executor_chat_id project)
           in (update_unlink db s new_customer new_executor,
               Inr (project\<lparr>customer_chat_id := new_customer,
                            executor_chat_id := new_executor, is_active := False\<rparr>))))"

text \<open>
  \<^verbatim>\<open>list_projects\<close>: \<^verbatim>\<open>SELECT ... ORDER BY slug\<close>. The column has the default
  (binary) collation, which compares the UTF-8 bytes lexicographically.
\<close>

definition list_projects :: "projects \<Rightarrow> Project list" where
  "list_projects db = map row_to_project (sort_key col_slug db)"

text \<open>
  The lookup as the specification words it: the first qualifying record when the records
  are taken in the order of their slugs. It is stated here only to be compared with
  \<open>find_by_chat_id\<close>, which scans in rowid order.
\<close>

definition find_by_chat_id_slug_order :: "projects \<Rightarrow> chat_id \<Rightarrow> (Project \<times> string) option" where
  "find_by_chat_id_slug_order db chat = find_by_chat_id (sort_key col_slug db) chat"

section \<open>Configuration (config.py)\<close>

record Config =
  bot_token :: string
  admin_user_id :: int
  db_path :: string

section \<open>The bot (main.py)\<close>

subsection \<open>Updates, messages and Bot API calls\<close>

text \<open>
  The parts of a Telegram update the handlers read. A Python \<^verbatim>\<open>str\<close> is modelled
  by its UTF-8 bytes: concatenation, equality and emptiness are the only string
  operations of the program, and the encoding preserves all three. A chat, a document,
  a photo size, a voice note, an audio and a video are each reduced to the one
  attribute the program reads (\<^verbatim>\<open>id\<close>, respectively \<^verbatim>\<open>file_id\<close>).
\<close>

type_synonym file_id = string

record User =
  user_id :: int
  is_bot :: bool

record Message =
  msg_chat_id :: chat_id
  from_user :: "User option"
  msg_text :: "string option"
  msg_caption :: "string option"
  document :: "file_id option"
  photo :: "file_id list"
  voice :: "file_id option"
  audio :: "file_id option"
  video :: "file_id option"

record Update =
  effective_user :: "User option"
  effective_chat :: "chat_id option"
  effective_message :: "Message option"

text \<open>
  The calls a handler issues to the Bot API, in order. \<open>ReplyText\<close> is
  \<^verbatim>\<open>reply_text\<close> on the inbound message (it goes to the chat the message came
  from); the others are the \<^verbatim>\<open>send_*\<close> methods of \<^verbatim>\<open>context.bot\<close> with
  their target chat, file and caption.
\<close>

datatype call =
    ReplyText string
  | SendMessage chat_id string
  | SendDocument chat_id file_id string
  | SendPhoto chat_id file_id string
  | SendVoice chat_id file_id string
  | SendAudio chat_id file_id string
  | SendVideo chat_id file_id string

text \<open>
  What a command handler leaves behind: the store, the calls it issued, and the exception
  that escaped it, if any. Reading an attribute of an absent \<^verbatim>\<open>effective_message\<close>
  or \<^verbatim>\<open>effective_chat\<close> raises \<^verbatim>\<open>AttributeError\<close>. A reply is taken as
  delivered.
\<close>

datatype exn = AttributeError

type_synonym outcome = "projects \<times> call list \<times> exn option"

definition reply :: "Update \<Rightarrow> string \<Rightarrow> call list \<times> exn option" where
  "reply update txt =
     (case effective_message update of
        None \<Rightarrow> ([], Some AttributeError)
      | Some message \<Rightarrow> ([ReplyText txt], None))"

subsection \<open>Python's \<^verbatim>\<open>str\<close> of an integer and \<^verbatim>\<open>join\<close>\<close>

definition digit :: "nat \<Rightarrow> char" where
  "digit d = ''0123456789'' ! d"

fun digits :: "nat \<Rightarrow> string" where
  "digits n = (if n < 10 then [digit n] else digits (n div 10) @ [digit (n mod 10)])"

definition str_int :: "int \<Rightarrow> string" where
  "str_int i = (if i < 0 then ''-'' @ digits (nat (- i)) else digits (nat i))"

text \<open>A stored chat identifier reads back as the signed value of its 64 bits.\<close>

definition str_chat_id :: "chat_id \<Rightarrow> string" where
  "str_chat_id c = str_int (sint c)"

fun join :: "string \<Rightarrow> string list \<Rightarrow> string" where
  "join sep [] = []"
| "join sep [x] = x"
| "join sep (x # y # ys) = x @ sep @ join sep (y # ys)"

subsection \<open>The texts of the bot\<close>

text \<open>"This command is available to the administrator only."\<close>

definition text_admin_only :: string where
  "text_admin_only =
     [CHR 0xD0, CHR 0xAD, CHR 0xD1, CHR 0x82, CHR 0xD0, CHR 0xB0] @ '' '' @ [CHR 0xD0,
     CHR 0xBA, CHR 0xD0, CHR 0xBE, CHR 0xD0, CHR 0xBC, CHR 0xD0, CHR 0xB0, CHR 0xD0,
     CHR 0xBD, CHR 0xD0, CHR 0xB4, CHR 0xD0, CHR 0xB0] @ '' '' @ [CHR 0xD0, CHR 0xB4,
     CHR 0xD0, CHR 0xBE, CHR 0xD1, CHR 0x81, CHR 0xD1, CHR 0x82, CHR 0xD1, CHR 0x83,
     CHR 0xD0, CHR 0xBF, CHR 0xD0, CHR 0xBD, CHR 0xD0, CHR 0xB0] @ '' '' @ [CHR 0xD1,
     CHR 0x82, CHR 0xD0, CHR 0xBE, CHR 0xD0, CHR 0xBB, CHR 0xD1, CHR 0x8C, CHR 0xD0,
     CHR 0xBA, CHR 0xD0, CHR 0xBE] @ '' '' @ [CHR 0xD0, CHR 0xB0, CHR 0xD0, CHR 0xB4,
     CHR 0xD0, CHR 0xBC, CHR 0xD0, CHR 0xB8, CHR 0xD0, CHR 0xBD, CHR 0xD0, CHR 0xB8,
     CHR 0xD1, CHR 0x81, CHR 0xD1, CHR 0x82, CHR 0xD1, CHR 0x80, CHR 0xD0, CHR 0xB0,
     CHR 0xD1, CHR 0x82, CHR 0xD0, CHR 0xBE, CHR 0xD1, CHR 0x80, CHR 0xD1, CHR 0x83] @ ''.''"

text \<open>"bound (", "not bound", "active", "inactive".\<close>

definition text_bound_open :: string where
  "text_bound_open =
     [CHR 0xD0, CHR 0xBF, CHR 0xD1, CHR 0x80, CHR 0xD0, CHR 0xB8, CHR 0xD0, CHR 0xB2,
     CHR 0xD1, CHR 0x8F, CHR 0xD0, CHR 0xB7, CHR 0xD0, CHR 0xB0, CHR 0xD0, CHR 0xBD] @
     '' (''"

definition text_not_bound :: string where
  "text_not_bound =
     [CHR 0xD0, CHR 0xBD, CHR 0xD0, CHR 0xB5] @ '' '' @ [CHR 0xD0, CHR 0xBF, CHR 0xD1,
     CHR 0x80, CHR 0xD0, CHR 0xB8, CHR 0xD0, CHR 0xB2, CHR 0xD1, CHR 0x8F, CHR 0xD0,
     CHR 0xB7, CHR 0xD0, CHR 0xB0, CHR 0xD0, CHR 0xBD]"

definition text_active :: string where
  "text_active =
     [CHR 0xD0, CHR 0xB0, CHR 0xD0, CHR 0xBA, CHR 0xD1, CHR 0x82, CHR 0xD0, CHR 0xB8,
     CHR 0xD0, CHR 0xB2, CHR 0xD0, CHR 0xB5, CHR 0xD0, CHR 0xBD]"

definition text_inactive :: string where
  "text_inactive =
     [CHR 0xD0, CHR 0xBD, CHR 0xD0, CHR 0xB5, CHR 0xD0, CHR 0xB0, CHR 0xD0, CHR 0xBA,
     CHR 0xD1, CHR 0x82, CHR 0xD0, CHR 0xB8, CHR 0xD0, CHR 0xB2, CHR 0xD0, CHR 0xB5,
     CHR 0xD0, CHR 0xBD]"

text \<open>The three separators of a status line: ": customer - ", ", executors - ", ", status - ".\<close>

definition text_status_customer :: string where
  "text_status_customer =
     '': '' @ [CHR 0xD0, CHR 0xB7, CHR 0xD0, CHR 0xB0, CHR 0xD0, CHR 0xBA, CHR 0xD0,
     CHR 0xB0, CHR 0xD0, CHR 0xB7, CHR 0xD1, CHR 0x87, CHR 0xD0, CHR 0xB8, CHR 0xD0,
     CHR 0xBA] @ '' '' @ [CHR 0xE2, CHR 0x80, CHR 0x94] @ '' ''"

definition text_status_executors :: string where
  "text_status_executors =
     '', '' @ [CHR 0xD0, CHR 0xB8, CHR 0xD1, CHR 0x81, CHR 0xD0, CHR 0xBF, CHR 0xD0,
     CHR 0xBE, CHR 0xD0, CHR 0xBB, CHR 0xD0, CHR 0xBD, CHR 0xD0, CHR 0xB8, CHR 0xD1,
     CHR 0x82, CHR 0xD0, CHR 0xB5, CHR 0xD0, CHR 0xBB, CHR 0xD0, CHR 0xB8] @ '' '' @
     [CHR 0xE2, CHR 0x80, CHR 0x94] @ '' ''"

definition text_status_status :: string where
  "text_status_status =
     '', '' @ [CHR 0xD1, CHR 0x81, CHR 0xD1, CHR 0x82, CHR 0xD0, CHR 0xB0, CHR 0xD1,
     CHR 0x82, CHR 0xD1, CHR 0x83, CHR 0xD1, CHR 0x81] @ '' '' @ [CHR 0xE2, CHR 0x80,
     CHR 0x94] @ '' ''"

text \<open>"Usage: /create_project <slug>" and its two siblings.\<close>

definition usage_create_project :: string where
  "usage_create_project =
     [CHR 0xD0, CHR 0x98, CHR 0xD1, CHR 0x81, CHR 0xD0, CHR 0xBF, CHR 0xD0, CHR 0xBE,
     CHR 0xD0, CHR 0xBB, CHR 0xD1, CHR 0x8C, CHR 0xD0, CHR 0xB7, CHR 0xD0, CHR 0xBE,
     CHR 0xD0, CHR 0xB2, CHR 0xD0, CHR 0xB0, CHR 0xD0, CHR 0xBD, CHR 0xD0, CHR 0xB8,
     CHR 0xD0, CHR 0xB5] @ '': /create_project <slug>''"

definition usage_bind_customer :: string where
  "usage_bind_customer =
     [CHR 0xD0, CHR 0x98, CHR 0xD1, CHR 0x81, CHR 0xD0, CHR 0xBF, CHR 0xD0, CHR 0xBE,
     CHR 0xD0, CHR 0xBB, CHR 0xD1, CHR 0x8C, CHR 0xD0, CHR 0xB7, CHR 0xD0, CHR 0xBE,
     CHR 0xD0, CHR 0xB2, CHR 0xD0, CHR 0xB0, CHR 0xD0, CHR 0xBD, CHR 0xD0, CHR 0xB8,
     CHR 0xD0, CHR 0xB5] @ '': /bind_customer <slug>''"

definition usage_unlink_project :: string where
  "usage_unlink_project =
     [CHR 0xD0, CHR 0x98, CHR 0xD1, CHR 0x81, CHR 0xD0, CHR 0xBF, CHR 0xD0, CHR 0xBE,
     CHR 0xD0, CHR 0xBB, CHR 0xD1, CHR 0x8C, CHR 0xD0, CHR 0xB7, CHR 0xD0, CHR 0xBE,
     CHR 0xD0, CHR 0xB2, CHR 0xD0, CHR 0xB0, CHR 0xD0, CHR 0xBD, CHR 0xD0, CHR 0xB8,
     CHR 0xD0, CHR 0xB5] @ '': /unlink_project <slug>''"

text \<open>
  "Project ", " created. Now go to the customers' chat and run /bind_customer ",
  ": the customer chat is bound.", ": chat unlinked, project deactivated.".
\<close>

definition text_project :: string where
  "text_project =
     [CHR 0xD0, CHR 0x9F, CHR 0xD1, CHR 0x80, CHR 0xD0, CHR 0xBE, CHR 0xD0, CHR 0xB5,
     CHR 0xD0, CHR 0xBA, CHR 0xD1, CHR 0x82] @ '' ''"

definition text_created :: string where
  "text_created =
     '' '' @ [CHR 0xD1, CHR 0x81, CHR 0xD0, CHR 0xBE, CHR 0xD0, CHR 0xB7, CHR 0xD0,
     CHR 0xB4, CHR 0xD0, CHR 0xB0, CHR 0xD0, CHR 0xBD] @ ''. '' @ [CHR 0xD0, CHR 0xA2,
     CHR 0xD0, CHR 0xB5, CHR 0xD0, CHR 0xBF, CHR 0xD0, CHR 0xB5, CHR 0xD1, CHR 0x80,
     CHR 0xD1, CHR 0x8C] @ '' '' @ [CHR 0xD0, CHR 0xB7, CHR 0xD0, CHR 0xB0, CHR 0xD0,
     CHR 0xB9, CHR 0xD0, CHR 0xB4, CHR 0xD0, CHR 0xB8, CHR 0xD1, CHR 0x82, CHR 0xD0,
     CHR 0xB5] @ '' '' @ [CHR 0xD0, CHR 0xB2] @ '' '' @ [CHR 0xD1, CHR 0x87, CHR 0xD0,
     CHR 0xB0, CHR 0xD1, CHR 0x82] @ '' '' @ [CHR 0xD1, CHR 0x81] @ '' '' @ [CHR 0xD0,
     CHR 0xB7, CHR 0xD0, CHR 0xB0, CHR 0xD0, CHR 0xBA, CHR 0xD0, CHR 0xB0, CHR 0xD0,
     CHR 0xB7, CHR 0xD1, CHR 0x87, CHR 0xD0, CHR 0xB8, CHR 0xD0, CHR 0xBA, CHR 0xD0,
     CHR 0xB0, CHR 0xD0, CHR 0xBC, CHR 0xD0, CHR 0xB8] @ '' '' @ [CHR 0xD0, CHR 0xB8] @
     '' '' @ [CHR 0xD0, CHR 0xB2, CHR 0xD1, CHR 0x8B, CHR 0xD0, CHR 0xBF, CHR 0xD0,
     CHR 0xBE, CHR 0xD0, CHR 0xBB, CHR 0xD0, CHR 0xBD, CHR 0xD0, CHR 0xB8, CHR 0xD1,
     CHR 0x82, CHR 0xD0, CHR 0xB5] @ '' /bind_customer ''"

definition text_customer_bound :: string where
  "text_customer_bound =
     '': '' @ [CHR 0xD1, CHR 0x87, CHR 0xD0, CHR 0xB0, CHR 0xD1, CHR 0x82] @ '' '' @
     [CHR 0xD0, CHR 0xB7, CHR 0xD0, CHR 0xB0, CHR 0xD0, CHR 0xBA, CHR 0xD0, CHR 0xB0,
     CHR 0xD0, CHR 0xB7, CHR 0xD1, CHR 0x87, CHR 0xD0, CHR 0xB8, CHR 0xD0, CHR 0xBA,
     CHR 0xD0, CHR 0xB0] @ '' '' @ [CHR 0xD1, CHR 0x83, CHR 0xD1, CHR 0x81, CHR 0xD0,
     CHR 0xBF, CHR 0xD0, CHR 0xB5, CHR 0xD1, CHR 0x88, CHR 0xD0, CHR 0xBD, CHR 0xD0,
     CHR 0xBE] @ '' '' @ [CHR 0xD0, CHR 0xBF, CHR 0xD1, CHR 0x80, CHR 0xD0, CHR 0xB8,
     CHR 0xD0, CHR 0xB2, CHR 0xD1, CHR 0x8F, CHR 0xD0, CHR 0xB7, CHR 0xD0, CHR 0xB0,
     CHR 0xD0, CHR 0xBD] @ ''.''"

definition text_unlinked :: string where
  "text_unlinked =
     '': '' @ [CHR 0xD1, CHR 0x87, CHR 0xD0, CHR 0xB0, CHR 0xD1, CHR 0x82] @ '' '' @
     [CHR 0xD0, CHR 0xBE, CHR 0xD1, CHR 0x82, CHR 0xD0, CHR 0xB2, CHR 0xD1, CHR 0x8F,
     CHR 0xD0, CHR 0xB7, CHR 0xD0, CHR 0xB0, CHR 0xD0, CHR 0xBD] @ '', '' @ [CHR 0xD0,
     CHR 0xBF, CHR 0xD1, CHR 0x80, CHR 0xD0, CHR 0xBE, CHR 0xD0, CHR 0xB5, CHR 0xD0,
     CHR 0xBA, CHR 0xD1, CHR 0x82] @ '' '' @ [CHR 0xD0, CHR 0xB4, CHR 0xD0, CHR 0xB5,
     CHR 0xD0, CHR 0xB0, CHR 0xD0, CHR 0xBA, CHR 0xD1, CHR 0x82, CHR 0xD0, CHR 0xB8,
     CHR 0xD0, CHR 0xB2, CHR 0xD0, CHR 0xB8, CHR 0xD1, CHR 0x80, CHR 0xD0, CHR 0xBE,
     CHR 0xD0, CHR 0xB2, CHR 0xD0, CHR 0xB0, CHR 0xD0, CHR 0xBD] @ ''.''"

text \<open>
  "This chat is not bound to any project.", "executors' chat", "customers' chat",
  "Project: ", "Chat type: ", "Status: ".
\<close>

definition text_chat_not_bound :: string where
  "text_chat_not_bound =
     [CHR 0xD0, CHR 0xAD, CHR 0xD1, CHR 0x82, CHR 0xD0, CHR 0xBE, CHR 0xD1, CHR 0x82] @
     '' '' @ [CHR 0xD1, CHR 0x87, CHR 0xD0, CHR 0xB0, CHR 0xD1, CHR 0x82] @ '' '' @
     [CHR 0xD0, CHR 0xBD, CHR 0xD0, CHR 0xB5] @ '' '' @ [CHR 0xD0, CHR 0xBF, CHR 0xD1,
     CHR 0x80, CHR 0xD0, CHR 0xB8, CHR 0xD0, CHR 0xB2, CHR 0xD1, CHR 0x8F, CHR 0xD0,
     CHR 0xB7, CHR 0xD0, CHR 0xB0, CHR 0xD0, CHR 0xBD] @ '' '' @ [CHR 0xD0, CHR 0xBD,
     CHR 0xD0, CHR 0xB8] @ '' '' @ [CHR 0xD0, CHR 0xBA] @ '' '' @ [CHR 0xD0, CHR 0xBE,
     CHR 0xD0, CHR 0xB4, CHR 0xD0, CHR 0xBD, CHR 0xD0, CHR 0xBE, CHR 0xD0, CHR 0xBC,
     CHR 0xD1, CHR 0x83] @ '' '' @ [CHR 0xD0, CHR 0xBF, CHR 0xD1, CHR 0x80, CHR 0xD0,
     CHR 0xBE, CHR 0xD0, CHR 0xB5, CHR 0xD0, CHR 0xBA, CHR 0xD1, CHR 0x82, CHR 0xD1,
     CHR 0x83] @ ''.''"

definition text_executors_chat :: string where
  "text_executors_chat =
     [CHR 0xD1, CHR 0x87, CHR 0xD0, CHR 0xB0, CHR 0xD1, CHR 0x82] @ '' '' @ [CHR 0xD0,
     CHR 0xB8, CHR 0xD1, CHR 0x81, CHR 0xD0, CHR 0xBF, CHR 0xD0, CHR 0xBE, CHR 0xD0,
     CHR 0xBB, CHR 0xD0, CHR 0xBD, CHR 0xD0, CHR 0xB8, CHR 0xD1, CHR 0x82, CHR 0xD0,
     CHR 0xB5, CHR 0xD0, CHR 0xBB, CHR 0xD0, CHR 0xB5, CHR 0xD0, CHR 0xB9]"

definition text_customers_chat :: string where
  "text_customers_chat =
     [CHR 0xD1, CHR 0x87, CHR 0xD0, CHR 0xB0, CHR 0xD1, CHR 0x82] @ '' '' @ [CHR 0xD0,
     CHR 0xB7, CHR 0xD0, CHR 0xB0, CHR 0xD0, CHR 0xBA, CHR 0xD0, CHR 0xB0, CHR 0xD0,
     CHR 0xB7, CHR 0xD1, CHR 0x87, CHR 0xD0, CHR 0xB8, CHR 0xD0, CHR 0xBA, CHR 0xD0,
     CHR 0xBE, CHR 0xD0, CHR 0xB2]"

definition text_info_project :: string where
  "text_info_project =
     [CHR 0xD0, CHR 0x9F, CHR 0xD1, CHR 0x80, CHR 0xD0, CHR 0xBE, CHR 0xD0, CHR 0xB5,
     CHR 0xD0, CHR 0xBA, CHR 0xD1, CHR 0x82] @ '': ''"

definition text_info_chat_type :: string where
  "text_info_chat_type =
     [CHR 0x0A] @ [CHR 0xD0, CHR 0xA2, CHR 0xD0, CHR 0xB8, CHR 0xD0, CHR 0xBF] @ '' '' @ [CHR 0xD1,
     CHR 0x87, CHR 0xD0, CHR 0xB0, CHR 0xD1, CHR 0x82, CHR 0xD0, CHR 0xB0] @ '': ''"

definition text_info_status :: string where
  "text_info_status =
     [CHR 0x0A] @ [CHR 0xD0, CHR 0xA1, CHR 0xD1, CHR 0x82, CHR 0xD0, CHR 0xB0, CHR 0xD1, CHR 0x82,
     CHR 0xD1, CHR 0x83, CHR 0xD1, CHR 0x81] @ '': ''"

text \<open>"There are no projects yet.", "Project list:".\<close>

definition text_no_projects :: string where
  "text_no_projects =
     [CHR 0xD0, CHR 0x9F, CHR 0xD1, CHR 0x80, CHR 0xD0, CHR 0xBE, CHR 0xD0, CHR 0xB5,
     CHR 0xD0, CHR 0xBA, CHR 0xD1, CHR 0x82, CHR 0xD0, CHR 0xBE, CHR 0xD0, CHR 0xB2] @ '' ''
     @ [CHR 0xD0, CHR 0xBF, CHR 0xD0, CHR 0xBE, CHR 0xD0, CHR 0xBA, CHR 0xD0, CHR 0xB0] @
     '' '' @ [CHR 0xD0, CHR 0xBD, CHR 0xD0, CHR 0xB5, CHR 0xD1, CHR 0x82] @ ''.''"

definition text_project_list :: string where
  "text_project_list =
     [CHR 0xD0, CHR 0xA1, CHR 0xD0, CHR 0xBF, CHR 0xD0, CHR 0xB8, CHR 0xD1, CHR 0x81,
     CHR 0xD0, CHR 0xBE, CHR 0xD0, CHR 0xBA] @ '' '' @ [CHR 0xD0, CHR 0xBF, CHR 0xD1,
     CHR 0x80, CHR 0xD0, CHR 0xBE, CHR 0xD0, CHR 0xB5, CHR 0xD0, CHR 0xBA, CHR 0xD1,
     CHR 0x82, CHR 0xD0, CHR 0xBE, CHR 0xD0, CHR 0xB2] @ '':''"

text \<open>The role labels: "Message from the team." and "Message from the client.", each after an emoji.\<close>

definition caption_executor :: string where
  "caption_executor =
     [CHR 0xF0, CHR 0x9F, CHR 0xA7, CHR 0x91, CHR 0xE2, CHR 0x80, CHR 0x8D, CHR 0xF0,
     CHR 0x9F, CHR 0x8E, CHR 0xA8] @ '' '' @ [CHR 0xD0, CHR 0xA1, CHR 0xD0, CHR 0xBE,
     CHR 0xD0, CHR 0xBE, CHR 0xD0, CHR 0xB1, CHR 0xD1, CHR 0x89, CHR 0xD0, CHR 0xB5,
     CHR 0xD0, CHR 0xBD, CHR 0xD0, CHR 0xB8, CHR 0xD0, CHR 0xB5] @ '' '' @ [CHR 0xD0,
     CHR 0xBE, CHR 0xD1, CHR 0x82] @ '' '' @ [CHR 0xD0, CHR 0xBA, CHR 0xD0, CHR 0xBE,
     CHR 0xD0, CHR 0xBC, CHR 0xD0, CHR 0xB0, CHR 0xD0, CHR 0xBD, CHR 0xD0, CHR 0xB4,
     CHR 0xD1, CHR 0x8B] @ ''.''"

definition caption_customer :: string where
  "caption_customer =
     [CHR 0xF0, CHR 0x9F, CHR 0x91, CHR 0xA4] @ '' '' @ [CHR 0xD0, CHR 0xA1, CHR 0xD0,
     CHR 0xBE, CHR 0xD0, CHR 0xBE, CHR 0xD0, CHR 0xB1, CHR 0xD1, CHR 0x89, CHR 0xD0,
     CHR 0xB5, CHR 0xD0, CHR 0xBD, CHR 0xD0, CHR 0xB8, CHR 0xD0, CHR 0xB5] @ '' '' @
     [CHR 0xD0, CHR 0xBE, CHR 0xD1, CHR 0x82] @ '' '' @ [CHR 0xD0, CHR 0xBA, CHR 0xD0,
     CHR 0xBB, CHR 0xD0, CHR 0xB8, CHR 0xD0, CHR 0xB5, CHR 0xD0, CHR 0xBD, CHR 0xD1,
     CHR 0x82, CHR 0xD0, CHR 0xB0] @ ''.''"

definition prefix_executor :: string where
  "prefix_executor =
     [CHR 0xF0, CHR 0x9F, CHR 0xA7, CHR 0x91, CHR 0xE2, CHR 0x80, CHR 0x8D, CHR 0xF0,
     CHR 0x9F, CHR 0x8E, CHR 0xA8] @ '' '' @ [CHR 0xD0, CHR 0xA1, CHR 0xD0, CHR 0xBE,
     CHR 0xD0, CHR 0xBE, CHR 0xD0, CHR 0xB1, CHR 0xD1, CHR 0x89, CHR 0xD0, CHR 0xB5,
     CHR 0xD0, CHR 0xBD, CHR 0xD0, CHR 0xB8, CHR 0xD0, CHR 0xB5] @ '' '' @ [CHR 0xD0,
     CHR 0xBE, CHR 0xD1, CHR 0x82] @ '' '' @ [CHR 0xD0, CHR 0xBA, CHR 0xD0, CHR 0xBE,
     CHR 0xD0, CHR 0xBC, CHR 0xD0, CHR 0xB0, CHR 0xD0, CHR 0xBD, CHR 0xD0, CHR 0xB4,
     CHR 0xD1, CHR 0x8B] @ '': ''"

definition prefix_customer :: string where
  "prefix_customer =
     [CHR 0xF0, CHR 0x9F, CHR 0x91, CHR 0xA4] @ '' '' @ [CHR 0xD0, CHR 0xA1, CHR 0xD0,
     CHR 0xBE, CHR 0xD0, CHR 0xBE, CHR 0xD0, CHR 0xB1, CHR 0xD1, CHR 0x89, CHR 0xD0,
     CHR 0xB5, CHR 0xD0, CHR 0xBD, CHR 0xD0, CHR 0xB8, CHR 0xD0, CHR 0xB5] @ '' '' @
     [CHR 0xD0, CHR 0xBE, CHR 0xD1, CHR 0x82] @ '' '' @ [CHR 0xD0, CHR 0xBA, CHR 0xD0,
     CHR 0xBB, CHR 0xD0, CHR 0xB8, CHR 0xD0, CHR 0xB5, CHR 0xD0, CHR 0xBD, CHR 0xD1,
     CHR 0x82, CHR 0xD0, CHR 0xB0] @ '': ''"

text \<open>
  "No paired chat is bound in the project. Contact the administrator.",
  "This message type is not supported for forwarding.",
  "Could not send the message to the paired chat. Check the bot's settings.".
\<close>

definition text_no_pairing :: string where
  "text_no_pairing =
     [CHR 0xD0, CHR 0x92] @ '' '' @ [CHR 0xD0, CHR 0xBF, CHR 0xD1, CHR 0x80, CHR 0xD0,
     CHR 0xBE, CHR 0xD0, CHR 0xB5, CHR 0xD0, CHR 0xBA, CHR 0xD1, CHR 0x82, CHR 0xD0,
     CHR 0xB5] @ '' '' @ [CHR 0xD0, CHR 0xBD, CHR 0xD0, CHR 0xB5] @ '' '' @ [CHR 0xD0,
     CHR 0xBF, CHR 0xD1, CHR 0x80, CHR 0xD0, CHR 0xB8, CHR 0xD0, CHR 0xB2, CHR 0xD1,
     CHR 0x8F, CHR 0xD0, CHR 0xB7, CHR 0xD0, CHR 0xB0, CHR 0xD0, CHR 0xBD] @ '' '' @
     [CHR 0xD0, CHR 0xBF, CHR 0xD0, CHR 0xB0, CHR 0xD1, CHR 0x80, CHR 0xD0, CHR 0xBD,
     CHR 0xD1, CHR 0x8B, CHR 0xD0, CHR 0xB9] @ '' '' @ [CHR 0xD1, CHR 0x87, CHR 0xD0,
     CHR 0xB0, CHR 0xD1, CHR 0x82] @ ''. '' @ [CHR 0xD0, CHR 0x9E, CHR 0xD0, CHR 0xB1,
     CHR 0xD1, CHR 0x80, CHR 0xD0, CHR 0xB0, CHR 0xD1, CHR 0x82, CHR 0xD0, CHR 0xB8,
     CHR 0xD1, CHR 0x82, CHR 0xD0, CHR 0xB5, CHR 0xD1, CHR 0x81, CHR 0xD1, CHR 0x8C] @ '' ''
     @ [CHR 0xD0, CHR 0xBA] @ '' '' @ [CHR 0xD0, CHR 0xB0, CHR 0xD0, CHR 0xB4, CHR 0xD0,
     CHR 0xBC, CHR 0xD0, CHR 0xB8, CHR 0xD0, CHR 0xBD, CHR 0xD0, CHR 0xB8, CHR 0xD1,
     CHR 0x81, CHR 0xD1, CHR 0x82, CHR 0xD1, CHR 0x80, CHR 0xD0, CHR 0xB0, CHR 0xD1,
     CHR 0x82, CHR 0xD0, CHR 0xBE, CHR 0xD1, CHR 0x80, CHR 0xD1, CHR 0x83] @ ''.''"

definition text_unsupported :: string where
  "text_unsupported =
     [CHR 0xD0, CHR 0xA2, CHR 0xD0, CHR 0xB8, CHR 0xD0, CHR 0xBF] @ '' '' @ [CHR 0xD1,
     CHR 0x81, CHR 0xD0, CHR 0xBE, CHR 0xD0, CHR 0xBE, CHR 0xD0, CHR 0xB1, CHR 0xD1,
     CHR 0x89, CHR 0xD0, CHR 0xB5, CHR 0xD0, CHR 0xBD, CHR 0xD0, CHR 0xB8, CHR 0xD1,
     CHR 0x8F] @ '' '' @ [CHR 0xD0, CHR 0xBD, CHR 0xD0, CHR 0xB5] @ '' '' @ [CHR 0xD0,
     CHR 0xBF, CHR 0xD0, CHR 0xBE, CHR 0xD0, CHR 0xB4, CHR 0xD0, CHR 0xB4, CHR 0xD0,
     CHR 0xB5, CHR 0xD1, CHR 0x80, CHR 0xD0, CHR 0xB6, CHR 0xD0, CHR 0xB8, CHR 0xD0,
     CHR 0xB2, CHR 0xD0, CHR 0xB0, CHR 0xD0, CHR 0xB5, CHR 0xD1, CHR 0x82, CHR 0xD1,
     CHR 0x81, CHR 0xD1, CHR 0x8F] @ '' '' @ [CHR 0xD0, CHR 0xB4, CHR 0xD0, CHR 0xBB,
     CHR 0xD1, CHR 0x8F] @ '' '' @ [CHR 0xD0, CHR 0xBF, CHR 0xD0, CHR 0xB5, CHR 0xD1,
     CHR 0x80, CHR 0xD0, CHR 0xB5, CHR 0xD1, CHR 0x81, CHR 0xD1, CHR 0x8B, CHR 0xD0,
     CHR 0xBB, CHR 0xD0, CHR 0xBA, CHR 0xD0, CHR 0xB8] @ ''.''"

definition text_delivery_failed :: string where
  "text_delivery_failed =
     [CHR 0xD0, CHR 0x9D, CHR 0xD0, CHR 0xB5] @ '' '' @ [CHR 0xD1, CHR 0x83, CHR 0xD0,
     CHR 0xB4, CHR 0xD0, CHR 0xB0, CHR 0xD0, CHR 0xBB, CHR 0xD0, CHR 0xBE, CHR 0xD1,
     CHR 0x81, CHR 0xD1, CHR 0x8C] @ '' '' @ [CHR 0xD0, CHR 0xBE, CHR 0xD1, CHR 0x82,
     CHR 0xD0, CHR 0xBF, CHR 0xD1, CHR 0x80, CHR 0xD0, CHR 0xB0, CHR 0xD0, CHR 0xB2,
     CHR 0xD0, CHR 0xB8, CHR 0xD1, CHR 0x82, CHR 0xD1, CHR 0x8C] @ '' '' @ [CHR 0xD1,
     CHR 0x81, CHR 0xD0, CHR 0xBE, CHR 0xD0, CHR 0xBE, CHR 0xD0, CHR 0xB1, CHR 0xD1,
     CHR 0x89, CHR 0xD0, CHR 0xB5, CHR 0xD0, CHR 0xBD, CHR 0xD0, CHR 0xB8, CHR 0xD0,
     CHR 0xB5] @ '' '' @ [CHR 0xD0, CHR 0xB2] @ '' '' @ [CHR 0xD0, CHR 0xBF, CHR 0xD0,
     CHR 0xB0, CHR 0xD1, CHR 0x80, CHR 0xD0, CHR 0xBD, CHR 0xD1, CHR 0x8B, CHR 0xD0,
     CHR 0xB9] @ '' '' @ [CHR 0xD1, CHR 0x87, CHR 0xD0, CHR 0xB0, CHR 0xD1, CHR 0x82] @
     ''. '' @ [CHR 0xD0, CHR 0x9F, CHR 0xD1, CHR 0x80, CHR 0xD0, CHR 0xBE, CHR 0xD0,
     CHR 0xB2, CHR 0xD0, CHR 0xB5, CHR 0xD1, CHR 0x80, CHR 0xD1, CHR 0x8C, CHR 0xD1,
     CHR 0x82, CHR 0xD0, CHR 0xB5] @ '' '' @ [CHR 0xD0, CHR 0xBD, CHR 0xD0, CHR 0xB0,
     CHR 0xD1, CHR 0x81, CHR 0xD1, CHR 0x82, CHR 0xD1, CHR 0x80, CHR 0xD0, CHR 0xBE,
     CHR 0xD0, CHR 0xB9, CHR 0xD0, CHR 0xBA, CHR 0xD0, CHR 0xB8] @ '' '' @ [CHR 0xD0,
     CHR 0xB1, CHR 0xD0, CHR 0xBE, CHR 0xD1, CHR 0x82, CHR 0xD0, CHR 0xB0] @ ''.''"

text \<open>
  The help text: "Available commands: /project_info - information about the project the
  chat is bound to. Administrator commands: /create_project, /bind_customer,
  /list_projects, /unlink_project."
\<close>

definition text_help :: string where
  "text_help =
     [CHR 0xD0, CHR 0x94, CHR 0xD0, CHR 0xBE, CHR 0xD1, CHR 0x81, CHR 0xD1, CHR 0x82,
     CHR 0xD1, CHR 0x83, CHR 0xD0, CHR 0xBF, CHR 0xD0, CHR 0xBD, CHR 0xD1, CHR 0x8B,
     CHR 0xD0, CHR 0xB5] @ '' '' @ [CHR 0xD0, CHR 0xBA, CHR 0xD0, CHR 0xBE, CHR 0xD0,
     CHR 0xBC, CHR 0xD0, CHR 0xB0, CHR 0xD0, CHR 0xBD, CHR 0xD0, CHR 0xB4, CHR 0xD1,
     CHR 0x8B] @ '':'' @ [CHR 0x0A] @
     ''/project_info '' @ [CHR 0xE2, CHR 0x80, CHR 0x94] @ '' '' @ [CHR 0xD0, CHR 0xB8,
     CHR 0xD0, CHR 0xBD, CHR 0xD1, CHR 0x84, CHR 0xD0, CHR 0xBE, CHR 0xD1, CHR 0x80,
     CHR 0xD0, CHR 0xBC, CHR 0xD0, CHR 0xB0, CHR 0xD1, CHR 0x86, CHR 0xD0, CHR 0xB8,
     CHR 0xD1, CHR 0x8F] @ '' '' @ [CHR 0xD0, CHR 0xBE] @ '' '' @ [CHR 0xD0, CHR 0xBF,
     CHR 0xD1, CHR 0x80, CHR 0xD0, CHR 0xBE, CHR 0xD0, CHR 0xB5, CHR 0xD0, CHR 0xBA,
     CHR 0xD1, CHR 0x82, CHR 0xD0, CHR 0xB5] @ '', '' @ [CHR 0xD0, CHR 0xBA] @ '' '' @
     [CHR 0xD0, CHR 0xBA, CHR 0xD0, CHR 0xBE, CHR 0xD1, CHR 0x82, CHR 0xD0, CHR 0xBE,
     CHR 0xD1, CHR 0x80, CHR 0xD0, CHR 0xBE, CHR 0xD0, CHR 0xBC, CHR 0xD1, CHR 0x83] @ '' ''
     @ [CHR 0xD0, CHR 0xBF, CHR 0xD1, CHR 0x80, CHR 0xD0, CHR 0xB8, CHR 0xD0, CHR 0xB2,
     CHR 0xD1, CHR 0x8F, CHR 0xD0, CHR 0xB7, CHR 0xD0, CHR 0xB0, CHR 0xD0, CHR 0xBD] @ '' ''
     @ [CHR 0xD1, CHR 0x87, CHR 0xD0, CHR 0xB0, CHR 0xD1, CHR 0x82] @ ''.'' @ [CHR 0x0A] @
     [CHR 0xD0, CHR 0x9A, CHR 0xD0, CHR 0xBE, CHR 0xD0, CHR 0xBC, CHR 0xD0, CHR 0xB0,
     CHR 0xD0, CHR 0xBD, CHR 0xD0, CHR 0xB4, CHR 0xD1, CHR 0x8B] @ '' '' @ [CHR 0xD0,
     CHR 0xB0, CHR 0xD0, CHR 0xB4, CHR 0xD0, CHR 0xBC, CHR 0xD0, CHR 0xB8, CHR 0xD0,
     CHR 0xBD, CHR 0xD0, CHR 0xB8, CHR 0xD1, CHR 0x81, CHR 0xD1, CHR 0x82, CHR 0xD1,
     CHR 0x80, CHR 0xD0, CHR 0xB0, CHR 0xD1, CHR 0x82, CHR 0xD0, CHR 0xBE, CHR 0xD1,
     CHR 0x80, CHR 0xD0, CHR 0xB0] @
     '': /create_project, /bind_customer, /list_projects, /unlink_project.''"

subsection \<open>Authorisation\<close>

definition is_admin :: "Update \<Rightarrow> Config \<Rightarrow> bool" where
  "is_admin update config =
     (case effective_user update of
        None \<Rightarrow> False
      | Some user \<Rightarrow> user_id user = admin_user_id config)"

text \<open>\<^verbatim>\<open>ensure_admin\<close>: the verdict, and the refusal it sends when there is a message to answer.\<close>

definition ensure_admin :: "Update \<Rightarrow> Config \<Rightarrow> bool \<times> call list" where
  "ensure_admin update config =
     (if is_admin update config then (True, [])
      else (case effective_message update of
              Some message \<Rightarrow> (False, [ReplyText text_admin_only])
            | None \<Rightarrow> (False, [])))"

subsection \<open>Command handlers\<close>

text \<open>
  An integer is truthy when it is present and non-zero: this is the test
  \<^verbatim>\<open>if project.customer_chat_id\<close> of \<^verbatim>\<open>build_project_status\<close>.
\<close>

definition build_project_status :: "Project \<Rightarrow> string" where
  "build_project_status project =
     (let customer_status =
            (case customer_chat_id project of
               None \<Rightarrow> text_not_bound
             | Some c \<Rightarrow> if c = 0 then text_not_bound
                         else text_bound_open @ str_chat_id c @ '')'');
          executor_status =
            (case executor_chat_id project of
               None \<Rightarrow> text_not_bound
             | Some c \<Rightarrow> if c = 0 then text_not_bound
                         else text_bound_open @ str_chat_id c @ '')'');
          active_status = (if is_active project then text_active else text_inactive)
      in slug project @ text_status_customer @ customer_status
           @ text_status_executors @ executor_status
           @ text_status_status @ active_status)"

text \<open>
  Each handler takes the update, \<^verbatim>\<open>context.args\<close>, the configuration and the store.
  \<^verbatim>\<open>except ValueError as exc\<close> answers with \<^verbatim>\<open>str(exc)\<close>, the message of the error.
\<close>

definition create_project_handler :: "Update \<Rightarrow> string list \<Rightarrow> Config \<Rightarrow> projects \<Rightarrow> outcome" where
  "create_project_handler update args config db =
     (case ensure_admin update config of
        (False, refusal) \<Rightarrow> (db, refusal, None)
      | (True, _) \<Rightarrow>
          (case args of
             [] \<Rightarrow> (db, reply update usage_create_project)
           | s # _ \<Rightarrow>
               (case effective_chat update of
                  None \<Rightarrow> (db, [], Some AttributeError)
                | Some chat \<Rightarrow>
                    (case create_project db s chat of
                       (db', Inl (ValueError msg)) \<Rightarrow> (db', reply update msg)
                     | (db', Inr project) \<Rightarrow>
                         (db', reply update
                            (text_project @ s @ text_created @ s @ ''.''))))))"

definition bind_customer_handler :: "Update \<Rightarrow> string list \<Rightarrow> Config \<Rightarrow> projects \<Rightarrow> outcome" where
  "bind_customer_handler update args config db =
     (case ensure_admin update config of
        (False, refusal) \<Rightarrow> (db, refusal, None)
      | (True, _) \<Rightarrow>
          (case args of
             [] \<Rightarrow> (db, reply update usage_bind_customer)
           | s # _ \<Rightarrow>
               (case effective_chat update of
                  None \<Rightarrow> (db, [], Some AttributeError)
                | Some chat \<Rightarrow>
                    (case bind_customer_chat db s chat of
                       (db', Inl (ValueError msg)) \<Rightarrow> (db', reply update msg)
                     | (db', Inr project) \<Rightarrow>
                         (db', reply update
                            (text_project @ slug project @ text_customer_bound))))))"

text \<open>\<^verbatim>\<open>project_info_handler\<close> takes no configuration and makes no authorisation check.\<close>

definition project_info_handler :: "Update \<Rightarrow> string list \<Rightarrow> projects \<Rightarrow> outcome" where
  "project_info_handler update args db =
     (case effective_chat update of
        None \<Rightarrow> (db, [], Some AttributeError)
      | Some chat \<Rightarrow>
          (case find_by_chat_id db chat of
             None \<Rightarrow> (db, reply update text_chat_not_bound)
           | Some (project, role) \<Rightarrow>
               (let role_name =
                      (if role = ''executor'' then text_executors_chat else text_customers_chat)
                in (db, reply update
                      (text_info_project @ slug project
                         @ text_info_chat_type @ role_name
                         @ text_info_status
                         @ (if is_active project then text_active else text_inactive))))))"

definition list_projects_handler :: "Update \<Rightarrow> string list \<Rightarrow> Config \<Rightarrow> projects \<Rightarrow> outcome" where
  "list_projects_handler update args config db =
     (case ensure_admin update config of
        (False, refusal) \<Rightarrow> (db, refusal, None)
      | (True, _) \<Rightarrow>
          (let projects = list_projects db
           in if projects = [] then (db, reply update text_no_projects)
              else (let lines = [text_project_list] @ map build_project_status projects
                    in (db, reply update (join [CHR 0x0A] lines)))))"

definition unlink_project_handler :: "Update \<Rightarrow> string list \<Rightarrow> Config \<Rightarrow> projects \<Rightarrow> outcome" where
  "unlink_project_handler update args config db =
     (case ensure_admin update config of
        (False, refusal) \<Rightarrow> (db, refusal, None)
      | (True, _) \<Rightarrow>
          (case args of
             [] \<Rightarrow> (db, reply update usage_unlink_project)
           | s # _ \<Rightarrow>
               (case effective_chat update of
                  None \<Rightarrow> (db, [], Some AttributeError)
                | Some chat \<Rightarrow>
                    (case unlink_chat db s chat of
                       (db', Inl (ValueError msg)) \<Rightarrow> (db', reply update msg)
                     | (db', Inr project) \<Rightarrow>
                         (db', reply update
                            (text_project @ slug project @ text_unlinked))))))"

definition help_handler :: "Update \<Rightarrow> string list \<Rightarrow> projects \<Rightarrow> outcome" where
  "help_handler update args db = (db, reply update text_help)"

subsection \<open>Relaying\<close>

definition caption_for_role :: "string \<Rightarrow> string" where
  "caption_for_role role = (if role = ''executor'' then caption_executor else caption_customer)"

definition build_media_caption :: "string \<Rightarrow> string option \<Rightarrow> string" where
  "build_media_caption role original_caption =
     (let base = caption_for_role role
      in case original_caption of
           None \<Rightarrow> base
         | Some c \<Rightarrow> if c \<noteq> [] then base @ [CHR 0x0A] @ c else base)"

definition prefix_for_role :: "string \<Rightarrow> string" where
  "prefix_for_role role = (if role = ''executor'' then prefix_executor else prefix_customer)"

text \<open>Line 174: the destination is the side of the project opposite to the sender's role.\<close>

definition target_chat_id :: "Project \<Rightarrow> string \<Rightarrow> chat_id option" where
  "target_chat_id project role =
     (if role = ''executor'' then customer_chat_id project else executor_chat_id project)"

text \<open>
  Lines 184 to 200, the chain that picks the forwarding call by the first kind of content
  present: text (a present, non-empty string), document, photo (the last size of a
  non-empty list), voice, audio, video. \<open>None\<close> is the final \<^verbatim>\<open>else\<close>: no
  supported content.
\<close>

definition forward_call :: "chat_id \<Rightarrow> string \<Rightarrow> string \<Rightarrow> Message \<Rightarrow> call option" where
  "forward_call target caption text_prefix message =
     (if msg_text message \<noteq> None \<and> msg_text message \<noteq> Some []
        then Some (SendMessage target (text_prefix @ the (msg_text message)))
      else if document message \<noteq> None
        then Some (SendDocument target (the (document message)) caption)
      else if photo message \<noteq> []
        then Some (SendPhoto target (last (photo message)) caption)
      else if voice message \<noteq> None
        then Some (SendVoice target (the (voice message)) caption)
      else if audio message \<noteq> None
        then Some (SendAudio target (the (audio message)) caption)
      else if video message \<noteq> None
        then Some (SendVideo target (the (video message)) caption)
      else None)"

text \<open>
  \<^verbatim>\<open>relay_message\<close>. The result is the list of calls issued. \<open>deliver\<close> stands
  for the transport: a forwarding call it rejects raises \<^verbatim>\<open>TelegramError\<close>, and
  the handler then answers the sender with the failure notice. The test
  \<^verbatim>\<open>if not target_chat_id\<close> holds for an absent target and for the target 0.
  The caption is assigned twice, as in lines 179 and 180.
\<close>

definition relay_message :: "(call \<Rightarrow> bool) \<Rightarrow> Update \<Rightarrow> projects \<Rightarrow> call list" where
  "relay_message deliver update db =
     (case effective_message update of
        None \<Rightarrow> []
      | Some message \<Rightarrow>
          if (case from_user message of None \<Rightarrow> False | Some sender \<Rightarrow> is_bot sender) then []
          else
            (case find_by_chat_id db (msg_chat_id message) of
               None \<Rightarrow> []
             | Some (project, role) \<Rightarrow>
                 (case target_chat_id project role of
                    None \<Rightarrow> [ReplyText text_no_pairing]
                  | Some target \<Rightarrow>
                      if target = 0 then [ReplyText text_no_pairing]
                      else
                        (let caption = build_media_caption role (msg_caption message);
                             caption = caption_for_role role;
                             text_prefix = prefix_for_role role
                         in case forward_call target caption text_prefix message of
                              None \<Rightarrow> [ReplyText text_unsupported]
                            | Some c \<Rightarrow>
                                if deliver c then [c]
                                else [c, ReplyText text_delivery_failed]))))"

section \<open>Properties of the storage layer\<close>

subsection \<open>Auxiliary facts about the queries\<close>

lemma find_append_split:
  "find P (xs @ ys) = (case find P xs of Some x \<Rightarrow> Some x | None \<Rightarrow> find P ys)"
  by (induction xs) auto

lemma select_by_slug_None_iff:
  "select_by_slug db s = None \<longleftrightarrow> s \<notin> col_slug ` set db"
  unfolding select_by_slug_def find_None_iff by auto

lemma select_by_slug_Some_iff:
  "select_by_slug db s = Some r \<longleftrightarrow>
     (\<exists>i < length db. r = db ! i \<and> col_slug (db ! i) = s \<and> (\<forall>j < i. col_slug (db ! j) \<noteq> s))"
  unfolding select_by_slug_def find_Some_iff by auto

lemma select_by_slug_update_customer:
  "select_by_slug (update_customer db s c) s' =
     (case select_by_slug db s' of
        None \<Rightarrow> None
      | Some r \<Rightarrow>
          Some (if s' = s then r\<lparr>col_customer_chat_id := Some c, col_is_active := 1\<rparr> else r))"
  unfolding select_by_slug_def update_customer_def
  by (induction db) auto

lemma update_customer_idem:
  "update_customer (update_customer db s c) s c = update_customer db s c"
  unfolding update_customer_def by (induction db) auto


lemma select_by_slug_slug: "select_by_slug db s = Some r \<Longrightarrow> col_slug r = s"
  unfolding select_by_slug_def by (induction db) (auto split: if_splits)


subsection \<open>Creating a project\<close>

text \<open>
  C9. For a slug that no row of the table carries and any executor chat,
  \<open>create_project\<close> succeeds and appends one row to the table, and
  \<open>find_by_slug\<close> on the resulting store returns the project with that executor, no
  customer, and the active flag set.
\<close>

theorem create_project_then_find_by_slug:
  assumes "s \<notin> col_slug ` set db"
  shows "snd (create_project db s e) =
           Inr \<lparr>slug = s, customer_chat_id = None, executor_chat_id = Some e, is_active = True\<rparr>
       \<and> fst (create_project db s e) =
           db @ [\<lparr>col_slug = s, col_customer_chat_id = None, col_executor_chat_id = Some e,
                  col_is_active = 1\<rparr>]
       \<and> find_by_slug (fst (create_project db s e)) s =
           Some \<lparr>slug = s, customer_chat_id = None, executor_chat_id = Some e, is_active = True\<rparr>"
proof -
  from assms have n: "select_by_slug db s = None"
    by (simp add: select_by_slug_None_iff)
  then have "find (\<lambda>r. col_slug r = s) db = None"
    by (simp add: select_by_slug_def)
  with n show ?thesis
    by (simp add: create_project_def find_by_slug_def select_by_slug_def find_append_split
          row_to_project_def)
qed

theorem create_project_then_find_by_slug_witness:
  "''proj1'' \<notin> col_slug ` set
       [\<lparr>col_slug = ''alpha'', col_customer_chat_id = Some 20, col_executor_chat_id = Some 10,
          col_is_active = 1\<rparr>,
        \<lparr>col_slug = ''zeta'', col_customer_chat_id = None, col_executor_chat_id = Some 30,
          col_is_active = 0\<rparr>]
   \<and> snd (create_project
       [\<lparr>col_slug = ''alpha'', col_customer_chat_id = Some 20, col_executor_chat_id = Some 10,
          col_is_active = 1\<rparr>,
        \<lparr>col_slug = ''zeta'', col_customer_chat_id = None, col_executor_chat_id = Some 30,
          col_is_active = 0\<rparr>] ''proj1'' 100) =
         Inr \<lparr>slug = ''proj1'', customer_chat_id = None, executor_chat_id = Some 100,
              is_active = True\<rparr>
   \<and> find_by_slug (fst (create_project
       [\<lparr>col_slug = ''alpha'', col_customer_chat_id = Some 20, col_executor_chat_id = Some 10,
          col_is_active = 1\<rparr>,
        \<lparr>col_slug = ''zeta'', col_customer_chat_id = None, col_executor_chat_id = Some 30,
          col_is_active = 0\<rparr>] ''proj1'' 100)) ''proj1'' =
         Some \<lparr>slug = ''proj1'', customer_chat_id = None, executor_chat_id = Some 100,
               is_active = True\<rparr>"
proof -
  have h: "''proj1'' \<notin> col_slug ` set
       [\<lparr>col_slug = ''alpha'', col_customer_chat_id = Some 20, col_executor_chat_id = Some 10,
          col_is_active = 1\<rparr>,
        \<lparr>col_slug = ''zeta'', col_customer_chat_id = None, col_executor_chat_id = Some 30,
          col_is_active = 0\<rparr>]"
    by simp
  note t = create_project_then_find_by_slug [OF h, of 100]
  show ?thesis
    by (rule conjI [OF h conjI [OF t [THEN conjunct1] t [THEN conjunct2, THEN conjunct2]]])
qed

text \<open>
  C4. After a successful \<open>create_project db s e1\<close>, creating the same slug again
  fails with the error "Project already exists" and returns the store as the first call
  left it. The match is exact: a slug that differs from \<open>s\<close> (in letter case, say) and
  was free before is still accepted.
\<close>

theorem create_project_twice:
  assumes "create_project db s e1 = (db1, Inr p)"
  shows "create_project db1 s e2 = (db1, Inl (ValueError ''Project already exists''))
       \<and> (\<forall>s'. s' \<noteq> s \<and> find_by_slug db s' = None \<longrightarrow>
             (\<exists>p'. snd (create_project db1 s' e2) = Inr p'))"
  using assms
  by (auto simp: create_project_def find_by_slug_def select_by_slug_def find_append_split
       split: option.splits if_splits)

theorem create_project_twice_witness:
  "create_project [] ''proj1'' 100 =
     ([\<lparr>col_slug = ''proj1'', col_customer_chat_id = None, col_executor_chat_id = Some 100,
        col_is_active = 1\<rparr>],
      Inr \<lparr>slug = ''proj1'', customer_chat_id = None, executor_chat_id = Some 100,
           is_active = True\<rparr>)
   \<and> create_project
        [\<lparr>col_slug = ''proj1'', col_customer_chat_id = None, col_executor_chat_id = Some 100,
          col_is_active = 1\<rparr>] ''proj1'' 300 =
       ([\<lparr>col_slug = ''proj1'', col_customer_chat_id = None, col_executor_chat_id = Some 100,
          col_is_active = 1\<rparr>],
        Inl (ValueError ''Project already exists''))
   \<and> (\<exists>p'. snd (create_project
        [\<lparr>col_slug = ''proj1'', col_customer_chat_id = None, col_executor_chat_id = Some 100,
          col_is_active = 1\<rparr>] ''Proj1'' 300) = Inr p')"
proof -
  have h: "create_project [] ''proj1'' 100 =
     ([\<lparr>col_slug = ''proj1'', col_customer_chat_id = None, col_executor_chat_id = Some 100,
        col_is_active = 1\<rparr>],
      Inr \<lparr>slug = ''proj1'', customer_chat_id = None, executor_chat_id = Some 100,
           is_active = True\<rparr>)"
    by (simp add: create_project_def select_by_slug_def)
  have f: "''Proj1'' \<noteq> ''proj1'' \<and> find_by_slug [] ''Proj1'' = None"
    by (simp add: find_by_slug_def select_by_slug_def)
  note t = create_project_twice [OF h, of 300]
  from t have a: "create_project
        [\<lparr>col_slug = ''proj1'', col_customer_chat_id = None, col_executor_chat_id = Some 100,
          col_is_active = 1\<rparr>] ''proj1'' 300 =
       ([\<lparr>col_slug = ''proj1'', col_customer_chat_id = None, col_executor_chat_id = Some 100,
          col_is_active = 1\<rparr>],
        Inl (ValueError ''Project already exists''))"
    by (rule conjunct1)
  from t have "\<forall>s'. s' \<noteq> ''proj1'' \<and> find_by_slug [] s' = None \<longrightarrow>
      (\<exists>p'. snd (create_project
        [\<lparr>col_slug = ''proj1'', col_customer_chat_id = None, col_executor_chat_id = Some 100,
          col_is_active = 1\<rparr>] s' 300) = Inr p')"
    by (rule conjunct2)
  then have "''Proj1'' \<noteq> ''proj1'' \<and> find_by_slug [] ''Proj1'' = None \<longrightarrow>
      (\<exists>p'. snd (create_project
        [\<lparr>col_slug = ''proj1'', col_customer_chat_id = None, col_executor_chat_id = Some 100,
          col_is_active = 1\<rparr>] ''Proj1'' 300) = Inr p')"
    by (rule spec)
  then have b: "\<exists>p'. snd (create_project
        [\<lparr>col_slug = ''proj1'', col_customer_chat_id = None, col_executor_chat_id = Some 100,
          col_is_active = 1\<rparr>] ''Proj1'' 300) = Inr p'"
    using f by (rule mp)
  show ?thesis
    by (rule conjI [OF h conjI [OF a b]])
qed

subsection \<open>Binding the customer chat\<close>

text \<open>
  C5. \<open>bind_customer_chat\<close> fails with "Project not found", leaving the store as it
  was, exactly when no row of the table carries the slug. When some row does, it succeeds
  whatever the project's state: the result is the first such row read as a project, with
  the given chat as customer and the active flag set; in the table, every row of that slug
  has the given chat in its customer column and 1 in its active column (a previous
  customer is overwritten, a deactivated project is active again), its other columns, all
  other rows and the number of rows are as before. Read through \<open>find_by_slug\<close>: the
  project is the former one with customer and active flag replaced, and every other slug
  reads as before.
\<close>

theorem bind_customer_chat_spec:
  "(s \<notin> col_slug ` set db \<longrightarrow>
      bind_customer_chat db s c = (db, Inl (ValueError ''Project not found'')))
   \<and> (s \<in> col_slug ` set db \<longrightarrow>
        (\<exists>i < length db. col_slug (db ! i) = s \<and> (\<forall>j < i. col_slug (db ! j) \<noteq> s)
           \<and> snd (bind_customer_chat db s c) =
               Inr \<lparr>slug = s, customer_chat_id = Some c,
                    executor_chat_id = col_executor_chat_id (db ! i), is_active = True\<rparr>)
      \<and> length (fst (bind_customer_chat db s c)) = length db
      \<and> (\<forall>i < length db.
            fst (bind_customer_chat db s c) ! i =
              (if col_slug (db ! i) = s
               then (db ! i)\<lparr>col_customer_chat_id := Some c, col_is_active := 1\<rparr>
               else db ! i)))
   \<and> (\<forall>p. find_by_slug db s = Some p \<longrightarrow>
         snd (bind_customer_chat db s c) =
           Inr (p\<lparr>customer_chat_id := Some c, is_active := True\<rparr>)
       \<and> find_by_slug (fst (bind_customer_chat db s c)) s =
           Some (p\<lparr>customer_chat_id := Some c, is_active := True\<rparr>)
       \<and> (\<forall>s'. s' \<noteq> s \<longrightarrow>
             find_by_slug (fst (bind_customer_chat db s c)) s' = find_by_slug db s'))"
proof -
  have a: "s \<notin> col_slug ` set db \<longrightarrow>
      bind_customer_chat db s c = (db, Inl (ValueError ''Project not found''))"
    by (simp add: bind_customer_chat_def find_by_slug_def select_by_slug_None_iff [symmetric])
  have b: "s \<in> col_slug ` set db \<longrightarrow>
        (\<exists>i < length db. col_slug (db ! i) = s \<and> (\<forall>j < i. col_slug (db ! j) \<noteq> s)
           \<and> snd (bind_customer_chat db s c) =
               Inr \<lparr>slug = s, customer_chat_id = Some c,
                    executor_chat_id = col_executor_chat_id (db ! i), is_active = True\<rparr>)
      \<and> length (fst (bind_customer_chat db s c)) = length db
      \<and> (\<forall>i < length db.
            fst (bind_customer_chat db s c) ! i =
              (if col_slug (db ! i) = s
               then (db ! i)\<lparr>col_customer_chat_id := Some c, col_is_active := 1\<rparr>
               else db ! i))"
  proof
    assume "s \<in> col_slug ` set db"
    then have "select_by_slug db s \<noteq> None"
      by (simp add: select_by_slug_None_iff)
    then obtain r where r: "select_by_slug db s = Some r" by blast
    then obtain i where i: "i < length db" "r = db ! i" "col_slug (db ! i) = s"
      "\<forall>j < i. col_slug (db ! j) \<noteq> s"
      unfolding select_by_slug_Some_iff by blast
    from r i have res: "snd (bind_customer_chat db s c) =
               Inr \<lparr>slug = s, customer_chat_id = Some c,
                    executor_chat_id = col_executor_chat_id (db ! i), is_active = True\<rparr>"
      by (simp add: bind_customer_chat_def find_by_slug_def row_to_project_def)
    from r have tab: "fst (bind_customer_chat db s c) = update_customer db s c"
      by (simp add: bind_customer_chat_def find_by_slug_def)
    have len: "length (fst (bind_customer_chat db s c)) = length db"
      by (simp add: tab update_customer_def)
    have rows: "\<forall>i < length db.
            fst (bind_customer_chat db s c) ! i =
              (if col_slug (db ! i) = s
               then (db ! i)\<lparr>col_customer_chat_id := Some c, col_is_active := 1\<rparr>
               else db ! i)"
      by (simp add: tab update_customer_def)
    from i res have "\<exists>i < length db. col_slug (db ! i) = s \<and> (\<forall>j < i. col_slug (db ! j) \<noteq> s)
           \<and> snd (bind_customer_chat db s c) =
               Inr \<lparr>slug = s, customer_chat_id = Some c,
                    executor_chat_id = col_executor_chat_id (db ! i), is_active = True\<rparr>"
      by blast
    with len rows show "(\<exists>i < length db. col_slug (db ! i) = s \<and> (\<forall>j < i. col_slug (db ! j) \<noteq> s)
           \<and> snd (bind_customer_chat db s c) =
               Inr \<lparr>slug = s, customer_chat_id = Some c,
                    executor_chat_id = col_executor_chat_id (db ! i), is_active = True\<rparr>)
      \<and> length (fst (bind_customer_chat db s c)) = length db
      \<and> (\<forall>i < length db.
            fst (bind_customer_chat db s c) ! i =
              (if col_slug (db ! i) = s
               then (db ! i)\<lparr>col_customer_chat_id := Some c, col_is_active := 1\<rparr>
               else db ! i))"
      by (intro conjI)
  qed
  have c: "\<forall>p. find_by_slug db s = Some p \<longrightarrow>
         snd (bind_customer_chat db s c) =
           Inr (p\<lparr>customer_chat_id := Some c, is_active := True\<rparr>)
       \<and> find_by_slug (fst (bind_customer_chat db s c)) s =
           Some (p\<lparr>customer_chat_id := Some c, is_active := True\<rparr>)
       \<and> (\<forall>s'. s' \<noteq> s \<longrightarrow>
             find_by_slug (fst (bind_customer_chat db s c)) s' = find_by_slug db s')"
    by (auto simp: bind_customer_chat_def find_by_slug_def select_by_slug_update_customer
         row_to_project_def split: option.splits)
  from a b c show ?thesis by (intro conjI)
qed

theorem bind_customer_chat_spec_witness:
  "''nope'' \<notin> col_slug ` set
       [\<lparr>col_slug = ''proj1'', col_customer_chat_id = Some 200, col_executor_chat_id = Some 100,
          col_is_active = 0\<rparr>,
        \<lparr>col_slug = ''zeta'', col_customer_chat_id = None, col_executor_chat_id = Some 30,
          col_is_active = 1\<rparr>]
   \<and> bind_customer_chat
       [\<lparr>col_slug = ''proj1'', col_customer_chat_id = Some 200, col_executor_chat_id = Some 100,
          col_is_active = 0\<rparr>,
        \<lparr>col_slug = ''zeta'', col_customer_chat_id = None, col_executor_chat_id = Some 30,
          col_is_active = 1\<rparr>] ''nope'' 300 =
      ([\<lparr>col_slug = ''proj1'', col_customer_chat_id = Some 200, col_executor_chat_id = Some 100,
          col_is_active = 0\<rparr>,
        \<lparr>col_slug = ''zeta'', col_customer_chat_id = None, col_executor_chat_id = Some 30,
          col_is_active = 1\<rparr>],
       Inl (ValueError ''Project not found''))
   \<and> ''proj1'' \<in> col_slug ` set
       [\<lparr>col_slug = ''proj1'', col_customer_chat_id = Some 200, col_executor_chat_id = Some 100,
          col_is_active = 0\<rparr>,
        \<lparr>col_slug = ''zeta'', col_customer_chat_id = None, col_executor_chat_id = Some 30,
          col_is_active = 1\<rparr>]
   \<and> snd (bind_customer_chat
       [\<lparr>col_slug = ''proj1'', col_customer_chat_id = Some 200, col_executor_chat_id = Some 100,
          col_is_active = 0\<rparr>,
        \<lparr>col_slug = ''zeta'', col_customer_chat_id = None, col_executor_chat_id = Some 30,
          col_is_active = 1\<rparr>] ''proj1'' 300) =
      Inr \<lparr>slug = ''proj1'', customer_chat_id = Some 300, executor_chat_id = Some 100,
           is_active = True\<rparr>
   \<and> fst (bind_customer_chat
       [\<lparr>col_slug = ''proj1'', col_customer_chat_id = Some 200, col_executor_chat_id = Some 100,
          col_is_active = 0\<rparr>,
        \<lparr>col_slug = ''zeta'', col_customer_chat_id = None, col_executor_chat_id = Some 30,
          col_is_active = 1\<rparr>] ''proj1'' 300) =
       [\<lparr>col_slug = ''proj1'', col_customer_chat_id = Some 300, col_executor_chat_id = Some 100,
          col_is_active = 1\<rparr>,
        \<lparr>col_slug = ''zeta'', col_customer_chat_id = None, col_executor_chat_id = Some 30,
          col_is_active = 1\<rparr>]"
proof -
  let ?db = "[\<lparr>col_slug = ''proj1'', col_customer_chat_id = Some 200, col_executor_chat_id = Some 100,
          col_is_active = 0\<rparr>,
        \<lparr>col_slug = ''zeta'', col_customer_chat_id = None, col_executor_chat_id = Some 30,
          col_is_active = 1\<rparr>]"
  have u: "''nope'' \<notin> col_slug ` set ?db"
    by simp
  have k: "''proj1'' \<in> col_slug ` set ?db"
    by simp
  note t = bind_customer_chat_spec [where db = ?db and c = 300]
  note a = t [where s = "''nope''", THEN conjunct1, THEN mp, OF u]
  note b = t [where s = "''proj1''", THEN conjunct2, THEN conjunct1, THEN mp, OF k]
  from b [THEN conjunct1]
  have res: "snd (bind_customer_chat ?db ''proj1'' 300) =
      Inr \<lparr>slug = ''proj1'', customer_chat_id = Some 300, executor_chat_id = Some 100,
           is_active = True\<rparr>"
    by (auto simp: less_Suc_eq)
  have len: "length (fst (bind_customer_chat ?db ''proj1'' 300)) = 2"
    using b [THEN conjunct2, THEN conjunct1] by simp
  have r0: "fst (bind_customer_chat ?db ''proj1'' 300) ! 0 =
       \<lparr>col_slug = ''proj1'', col_customer_chat_id = Some 300, col_executor_chat_id = Some 100,
          col_is_active = 1\<rparr>"
    using b [THEN conjunct2, THEN conjunct2, THEN spec, of 0] by simp
  have r1: "fst (bind_customer_chat ?db ''proj1'' 300) ! 1 =
       \<lparr>col_slug = ''zeta'', col_customer_chat_id = None, col_executor_chat_id = Some 30,
          col_is_active = 1\<rparr>"
    using b [THEN conjunct2, THEN conjunct2, THEN spec, of 1] by simp
  have tab: "fst (bind_customer_chat ?db ''proj1'' 300) =
       [\<lparr>col_slug = ''proj1'', col_customer_chat_id = Some 300, col_executor_chat_id = Some 100,
          col_is_active = 1\<rparr>,
        \<lparr>col_slug = ''zeta'', col_customer_chat_id = None, col_executor_chat_id = Some 30,
          col_is_active = 1\<rparr>]"
    using len r0 r1 by (auto simp: list_eq_iff_nth_eq numeral_2_eq_2 less_Suc_eq)
  show ?thesis
    by (rule conjI [OF u conjI [OF a conjI [OF k conjI [OF res tab]]]])
qed

text \<open>
  C8. Binding the same chat to the same slug twice in a row leaves the same store, and
  returns the same result, as binding it once.
\<close>

theorem bind_customer_chat_idempotent:
  "fst (bind_customer_chat (fst (bind_customer_chat db s c)) s c) =
     fst (bind_customer_chat db s c)
   \<and> snd (bind_customer_chat (fst (bind_customer_chat db s c)) s c) =
     snd (bind_customer_chat db s c)"
  by (auto simp: bind_customer_chat_def find_by_slug_def select_by_slug_update_customer
       row_to_project_def update_customer_idem split: option.splits)

theorem bind_customer_chat_idempotent_witness:
  "fst (bind_customer_chat (fst (bind_customer_chat
      [\<lparr>col_slug = ''proj1'', col_customer_chat_id = None, col_executor_chat_id = Some 100,
        col_is_active = 1\<rparr>] ''proj1'' 200)) ''proj1'' 200) =
     [\<lparr>col_slug = ''proj1'', col_customer_chat_id = Some 200, col_executor_chat_id = Some 100,
       col_is_active = 1\<rparr>]"
proof -
  have "fst (bind_customer_chat
      [\<lparr>col_slug = ''proj1'', col_customer_chat_id = None, col_executor_chat_id = Some 100,
        col_is_active = 1\<rparr>] ''proj1'' 200) =
     [\<lparr>col_slug = ''proj1'', col_customer_chat_id = Some 200, col_executor_chat_id = Some 100,
       col_is_active = 1\<rparr>]"
    by (simp add: bind_customer_chat_def find_by_slug_def select_by_slug_def update_customer_def)
  with bind_customer_chat_idempotent
         [of "[\<lparr>col_slug = ''proj1'', col_customer_chat_id = None,
                 col_executor_chat_id = Some 100, col_is_active = 1\<rparr>]" "''proj1''" 200]
  show ?thesis by simp
qed

subsection \<open>Looking a chat up\<close>

text \<open>
  C3, as the code has it. \<open>find_by_chat_id\<close> returns nothing exactly when no row has
  the chat in its customer or executor column. Otherwise it returns the first qualifying
  row of the table in scan order (the order in which the projects were created), and the
  role is "customer" exactly when the returned project's customer is the chat, else
  "executor". No ordering by slug is applied.
\<close>

theorem find_by_chat_id_first_in_scan_order:
  "(find_by_chat_id db chat = None \<longleftrightarrow>
      (\<forall>r \<in> set db. col_customer_chat_id r \<noteq> Some chat \<and> col_executor_chat_id r \<noteq> Some chat))
   \<and> (\<forall>project role. find_by_chat_id db chat = Some (project, role) \<longrightarrow>
        (\<exists>i < length db.
            project = row_to_project (db ! i)
          \<and> (customer_chat_id project = Some chat \<or> executor_chat_id project = Some chat)
          \<and> (\<forall>j < i. col_customer_chat_id (db ! j) \<noteq> Some chat
                      \<and> col_executor_chat_id (db ! j) \<noteq> Some chat))
        \<and> (role = ''customer'' \<longleftrightarrow> customer_chat_id project = Some chat)
        \<and> (role = ''executor'' \<longleftrightarrow> customer_chat_id project \<noteq> Some chat))"
proof -
  have none: "find_by_chat_id db chat = None \<longleftrightarrow>
      (\<forall>r \<in> set db. col_customer_chat_id r \<noteq> Some chat \<and> col_executor_chat_id r \<noteq> Some chat)"
  proof -
    have "select_by_chat_id db chat = None \<longleftrightarrow>
      (\<forall>r \<in> set db. col_customer_chat_id r \<noteq> Some chat \<and> col_executor_chat_id r \<noteq> Some chat)"
      unfolding select_by_chat_id_def find_None_iff by blast
    moreover have "find_by_chat_id db chat = None \<longleftrightarrow> select_by_chat_id db chat = None"
      by (simp add: find_by_chat_id_def Let_def split: option.splits)
    ultimately show ?thesis by simp
  qed
  have some: "\<exists>i < length db.
            project = row_to_project (db ! i)
          \<and> (customer_chat_id project = Some chat \<or> executor_chat_id project = Some chat)
          \<and> (\<forall>j < i. col_customer_chat_id (db ! j) \<noteq> Some chat
                      \<and> col_executor_chat_id (db ! j) \<noteq> Some chat)"
    if "find_by_chat_id db chat = Some (project, role)" for project role
  proof -
    from that obtain r where r: "select_by_chat_id db chat = Some r" "project = row_to_project r"
      by (auto simp: find_by_chat_id_def Let_def split: option.splits)
    from r(1) obtain i where i: "i < length db" "db ! i = r"
      "col_customer_chat_id r = Some chat \<or> col_executor_chat_id r = Some chat"
      "\<forall>j < i. \<not> (col_customer_chat_id (db ! j) = Some chat \<or> col_executor_chat_id (db ! j) = Some chat)"
      unfolding select_by_chat_id_def find_Some_iff by blast
    show ?thesis
      using i r(2) by (intro exI [of _ i]) (auto simp: row_to_project_def)
  qed
  have role: "(role = ''customer'' \<longleftrightarrow> customer_chat_id project = Some chat)
        \<and> (role = ''executor'' \<longleftrightarrow> customer_chat_id project \<noteq> Some chat)"
    if "find_by_chat_id db chat = Some (project, role)" for project role
    using that by (auto simp: find_by_chat_id_def Let_def split: option.splits if_splits)
  from none some role show ?thesis by blast
qed

theorem find_by_chat_id_first_in_scan_order_witness:
  "find_by_chat_id
      [\<lparr>col_slug = ''b'', col_customer_chat_id = None, col_executor_chat_id = Some 100,
        col_is_active = 1\<rparr>,
       \<lparr>col_slug = ''a'', col_customer_chat_id = None, col_executor_chat_id = Some 100,
        col_is_active = 1\<rparr>] 100 =
     Some (\<lparr>slug = ''b'', customer_chat_id = None, executor_chat_id = Some 100,
              is_active = True\<rparr>, ''executor'')
   \<and> (''executor'' = ''executor'') =
       (customer_chat_id \<lparr>slug = ''b'', customer_chat_id = None, executor_chat_id = Some 100,
              is_active = True\<rparr> \<noteq> Some 100)"
proof -
  have h: "find_by_chat_id
      [\<lparr>col_slug = ''b'', col_customer_chat_id = None, col_executor_chat_id = Some 100,
        col_is_active = 1\<rparr>,
       \<lparr>col_slug = ''a'', col_customer_chat_id = None, col_executor_chat_id = Some 100,
        col_is_active = 1\<rparr>] 100 =
     Some (\<lparr>slug = ''b'', customer_chat_id = None, executor_chat_id = Some 100,
              is_active = True\<rparr>, ''executor'')"
    by (simp add: find_by_chat_id_def select_by_chat_id_def row_to_project_def)
  note t = find_by_chat_id_first_in_scan_order
             [of "[\<lparr>col_slug = ''b'', col_customer_chat_id = None,
                      col_executor_chat_id = Some 100, col_is_active = 1\<rparr>,
                   \<lparr>col_slug = ''a'', col_customer_chat_id = None,
                      col_executor_chat_id = Some 100, col_is_active = 1\<rparr>]" 100,
              THEN conjunct2, THEN spec, THEN spec, THEN mp, OF h]
  from t [THEN conjunct2, THEN conjunct2] h show ?thesis
    by (rule conjI [rotated])
qed

text \<open>
  C3 as stated fails. Two projects created in the order "b", "a" from the same chat 100:
  the lookup returns "b", the first row in scan order, while the first qualifying record
  in slug order is "a".
\<close>

theorem find_by_chat_id_slug_order_counterexample:
  "fst (create_project (fst (create_project [] ''b'' 100)) ''a'' 100) =
      [\<lparr>col_slug = ''b'', col_customer_chat_id = None, col_executor_chat_id = Some 100,
        col_is_active = 1\<rparr>,
       \<lparr>col_slug = ''a'', col_customer_chat_id = None, col_executor_chat_id = Some 100,
        col_is_active = 1\<rparr>]
   \<and> find_by_chat_id
      [\<lparr>col_slug = ''b'', col_customer_chat_id = None, col_executor_chat_id = Some 100,
        col_is_active = 1\<rparr>,
       \<lparr>col_slug = ''a'', col_customer_chat_id = None, col_executor_chat_id = Some 100,
        col_is_active = 1\<rparr>] 100 =
     Some (\<lparr>slug = ''b'', customer_chat_id = None, executor_chat_id = Some 100,
              is_active = True\<rparr>, ''executor'')
   \<and> find_by_chat_id_slug_order
      [\<lparr>col_slug = ''b'', col_customer_chat_id = None, col_executor_chat_id = Some 100,
        col_is_active = 1\<rparr>,
       \<lparr>col_slug = ''a'', col_customer_chat_id = None, col_executor_chat_id = Some 100,
        col_is_active = 1\<rparr>] 100 =
     Some (\<lparr>slug = ''a'', customer_chat_id = None, executor_chat_id = Some 100,
              is_active = True\<rparr>, ''executor'')"
  by (simp add: create_project_def select_by_slug_def find_by_chat_id_slug_order_def
        find_by_chat_id_def select_by_chat_id_def row_to_project_def)

section \<open>Properties of the relay\<close>

subsection \<open>Auxiliary facts about the lookup by chat\<close>

lemma select_by_chat_id_Some_iff:
  "select_by_chat_id db chat = Some r \<longleftrightarrow>
     (\<exists>i < length db. r = db ! i
        \<and> (col_customer_chat_id (db ! i) = Some chat \<or> col_executor_chat_id (db ! i) = Some chat)
        \<and> (\<forall>j < i. col_customer_chat_id (db ! j) \<noteq> Some chat
                  \<and> col_executor_chat_id (db ! j) \<noteq> Some chat))"
  unfolding select_by_chat_id_def find_Some_iff by auto

lemma select_by_chat_id_first:
  assumes "i < length db"
    and "col_customer_chat_id (db ! i) = Some chat \<or> col_executor_chat_id (db ! i) = Some chat"
    and "\<forall>j < i. col_customer_chat_id (db ! j) \<noteq> Some chat
                  \<and> col_executor_chat_id (db ! j) \<noteq> Some chat"
  shows "select_by_chat_id db chat = Some (db ! i)"
  unfolding select_by_chat_id_Some_iff using assms by blast

subsection \<open>Routing\<close>

text \<open>
  C7. In the store that \<open>create_project\<close> of a slug from chat \<open>e\<close> followed by
  \<open>bind_customer_chat\<close> of the same slug to a different chat \<open>c\<close> leaves when run
  on the empty store (the example of the specification has \<open>e = 100\<close> and
  \<open>c = 200\<close>): looking up \<open>e\<close> gives the project with role "executor", looking up
  \<open>c\<close> gives it with role "customer"; a message from \<open>e\<close> is forwarded to
  \<open>c\<close> and a message from \<open>c\<close> to \<open>e\<close>, the forwarding call being the one
  \<open>forward_call\<close> builds for that destination. In any store, the destination computed
  for a lookup's result is the side of the project opposite to the one that matched.
\<close>

theorem bound_pair_lookup_and_routing:
  assumes "create_project [] s e = (db0, r0)"
    and "bind_customer_chat db0 s c = (db1, r1)"
    and "e \<noteq> c"
  shows "db1 = [\<lparr>col_slug = s, col_customer_chat_id = Some c, col_executor_chat_id = Some e,
                 col_is_active = 1\<rparr>]
       \<and> find_by_chat_id db1 e =
           Some (\<lparr>slug = s, customer_chat_id = Some c, executor_chat_id = Some e,
                  is_active = True\<rparr>, ''executor'')
       \<and> find_by_chat_id db1 c =
           Some (\<lparr>slug = s, customer_chat_id = Some c, executor_chat_id = Some e,
                  is_active = True\<rparr>, ''customer'')
       \<and> target_chat_id \<lparr>slug = s, customer_chat_id = Some c, executor_chat_id = Some e,
                           is_active = True\<rparr> ''executor'' = Some c
       \<and> target_chat_id \<lparr>slug = s, customer_chat_id = Some c, executor_chat_id = Some e,
                           is_active = True\<rparr> ''customer'' = Some e
       \<and> (\<forall>update message deliver.
             effective_message update = Some message
             \<and> (from_user message = None
                  \<or> (\<exists>sender. from_user message = Some sender \<and> is_bot sender = False))
             \<and> msg_chat_id message = e \<and> c \<noteq> 0 \<longrightarrow>
             relay_message deliver update db1 =
               (case forward_call c caption_executor prefix_executor message of
                  None \<Rightarrow> [ReplyText text_unsupported]
                | Some k \<Rightarrow> if deliver k then [k] else [k, ReplyText text_delivery_failed]))
       \<and> (\<forall>update message deliver.
             effective_message update = Some message
             \<and> (from_user message = None
                  \<or> (\<exists>sender. from_user message = Some sender \<and> is_bot sender = False))
             \<and> msg_chat_id message = c \<and> e \<noteq> 0 \<longrightarrow>
             relay_message deliver update db1 =
               (case forward_call e caption_customer prefix_customer message of
                  None \<Rightarrow> [ReplyText text_unsupported]
                | Some k \<Rightarrow> if deliver k then [k] else [k, ReplyText text_delivery_failed]))
       \<and> (\<forall>db chat project role.
             find_by_chat_id db chat = Some (project, role) \<longrightarrow>
               (role = ''customer'' \<and> customer_chat_id project = Some chat
                  \<and> target_chat_id project role = executor_chat_id project)
             \<or> (role = ''executor'' \<and> executor_chat_id project = Some chat
                  \<and> target_chat_id project role = customer_chat_id project))"
proof -
  let ?r = "\<lparr>col_slug = s, col_customer_chat_id = Some c, col_executor_chat_id = Some e,
             col_is_active = 1\<rparr>"
  let ?p = "\<lparr>slug = s, customer_chat_id = Some c, executor_chat_id = Some e,
             is_active = True\<rparr>"
  from assms(1) have db0: "db0 = [\<lparr>col_slug = s, col_customer_chat_id = None,
      col_executor_chat_id = Some e, col_is_active = 1\<rparr>]"
    by (auto simp: create_project_def select_by_slug_def)
  from assms(2) have db1: "db1 = [?r]"
    unfolding db0
    by (auto simp: bind_customer_chat_def find_by_slug_def select_by_slug_def
          update_customer_def)
  from assms(3) have fe: "find_by_chat_id db1 e = Some (?p, ''executor'')"
    unfolding db1
    by (auto simp: find_by_chat_id_def select_by_chat_id_def row_to_project_def)
  have fc: "find_by_chat_id db1 c = Some (?p, ''customer'')"
    unfolding db1
    by (simp add: find_by_chat_id_def select_by_chat_id_def row_to_project_def)
  have te: "target_chat_id ?p ''executor'' = Some c"
    by (simp add: target_chat_id_def)
  have tc: "target_chat_id ?p ''customer'' = Some e"
    by (simp add: target_chat_id_def)
  have re: "\<forall>update message deliver.
             effective_message update = Some message
             \<and> (from_user message = None
                  \<or> (\<exists>sender. from_user message = Some sender \<and> is_bot sender = False))
             \<and> msg_chat_id message = e \<and> c \<noteq> 0 \<longrightarrow>
             relay_message deliver update db1 =
               (case forward_call c caption_executor prefix_executor message of
                  None \<Rightarrow> [ReplyText text_unsupported]
                | Some k \<Rightarrow> if deliver k then [k] else [k, ReplyText text_delivery_failed])"
    using fe te
    by (auto simp: relay_message_def caption_for_role_def prefix_for_role_def Let_def)
  have rc: "\<forall>update message deliver.
             effective_message update = Some message
             \<and> (from_user message = None
                  \<or> (\<exists>sender. from_user message = Some sender \<and> is_bot sender = False))
             \<and> msg_chat_id message = c \<and> e \<noteq> 0 \<longrightarrow>
             relay_message deliver update db1 =
               (case forward_call e caption_customer prefix_customer message of
                  None \<Rightarrow> [ReplyText text_unsupported]
                | Some k \<Rightarrow> if deliver k then [k] else [k, ReplyText text_delivery_failed])"
    using fc tc
    by (auto simp: relay_message_def caption_for_role_def prefix_for_role_def Let_def)
  have opp: "\<forall>db chat project role.
             find_by_chat_id db chat = Some (project, role) \<longrightarrow>
               (role = ''customer'' \<and> customer_chat_id project = Some chat
                  \<and> target_chat_id project role = executor_chat_id project)
             \<or> (role = ''executor'' \<and> executor_chat_id project = Some chat
                  \<and> target_chat_id project role = customer_chat_id project)"
  proof (intro allI impI)
    fix db chat project role
    assume f: "find_by_chat_id db chat = Some (project, role)"
    then obtain r where r: "select_by_chat_id db chat = Some r" "project = row_to_project r"
      "role = (if customer_chat_id project = Some chat then ''customer'' else ''executor'')"
      by (auto simp: find_by_chat_id_def Let_def split: option.splits)
    from r(1) have "col_customer_chat_id r = Some chat \<or> col_executor_chat_id r = Some chat"
      unfolding select_by_chat_id_def find_Some_iff by blast
    with r(2) have q: "customer_chat_id project = Some chat \<or> executor_chat_id project = Some chat"
      by (simp add: row_to_project_def)
    show "(role = ''customer'' \<and> customer_chat_id project = Some chat
                  \<and> target_chat_id project role = executor_chat_id project)
             \<or> (role = ''executor'' \<and> executor_chat_id project = Some chat
                  \<and> target_chat_id project role = customer_chat_id project)"
      using q r(3) by (auto simp: target_chat_id_def)
  qed
  from db1 fe fc te tc re rc opp show ?thesis by (intro conjI)
qed

theorem bound_pair_lookup_and_routing_witness:
  "find_by_chat_id [\<lparr>col_slug = ''proj1'', col_customer_chat_id = Some 200,
      col_executor_chat_id = Some 100, col_is_active = 1\<rparr>] 100 =
     Some (\<lparr>slug = ''proj1'', customer_chat_id = Some 200,
         executor_chat_id = Some 100, is_active = True\<rparr>, ''executor'')
   \<and> find_by_chat_id [\<lparr>col_slug = ''proj1'', col_customer_chat_id = Some 200,
       col_executor_chat_id = Some 100, col_is_active = 1\<rparr>] 200 =
     Some (\<lparr>slug = ''proj1'', customer_chat_id = Some 200,
         executor_chat_id = Some 100, is_active = True\<rparr>, ''customer'')
   \<and> relay_message (\<lambda>k. True)
       \<lparr>effective_user = Some \<lparr>user_id = 7, is_bot = False\<rparr>,
           effective_chat = Some 100, effective_message = Some \<lparr>msg_chat_id = 100,
           from_user = Some \<lparr>user_id = 7, is_bot = False\<rparr>,
           msg_text = Some ''hi'', msg_caption = None, document = None, photo = [],
           voice = None, audio = None, video = None\<rparr>\<rparr>
       [\<lparr>col_slug = ''proj1'', col_customer_chat_id = Some 200,
           col_executor_chat_id = Some 100, col_is_active = 1\<rparr>] =
     [SendMessage 200 (prefix_executor @ ''hi'')]
   \<and> relay_message (\<lambda>k. True)
       \<lparr>effective_user = Some \<lparr>user_id = 8, is_bot = False\<rparr>,
           effective_chat = Some 200, effective_message = Some \<lparr>msg_chat_id = 200,
           from_user = Some \<lparr>user_id = 8, is_bot = False\<rparr>, msg_text = None,
           msg_caption = None, document = Some ''file1'', photo = [], voice = None,
           audio = None, video = None\<rparr>\<rparr>
       [\<lparr>col_slug = ''proj1'', col_customer_chat_id = Some 200,
           col_executor_chat_id = Some 100, col_is_active = 1\<rparr>] =
     [SendDocument 100 ''file1'' caption_customer]"
proof -
  let ?m1 = "\<lparr>msg_chat_id = 100, from_user = Some \<lparr>user_id = 7,
      is_bot = False\<rparr>, msg_text = Some ''hi'', msg_caption = None, document = None,
      photo = [], voice = None, audio = None, video = None\<rparr>"
  let ?u1 = "\<lparr>effective_user = Some \<lparr>user_id = 7, is_bot = False\<rparr>,
      effective_chat = Some 100, effective_message = Some \<lparr>msg_chat_id = 100,
      from_user = Some \<lparr>user_id = 7, is_bot = False\<rparr>, msg_text = Some ''hi'',
      msg_caption = None, document = None, photo = [], voice = None, audio = None,
      video = None\<rparr>\<rparr>"
  let ?m2 = "\<lparr>msg_chat_id = 200, from_user = Some \<lparr>user_id = 8,
      is_bot = False\<rparr>, msg_text = None, msg_caption = None,
      document = Some ''file1'', photo = [], voice = None, audio = None,
      video = None\<rparr>"
  let ?u2 = "\<lparr>effective_user = Some \<lparr>user_id = 8, is_bot = False\<rparr>,
      effective_chat = Some 200, effective_message = Some \<lparr>msg_chat_id = 200,
      from_user = Some \<lparr>user_id = 8, is_bot = False\<rparr>, msg_text = None,
      msg_caption = None, document = Some ''file1'', photo = [], voice = None,
      audio = None, video = None\<rparr>\<rparr>"
  have a: "create_project [] ''proj1'' 100 =
      ([\<lparr>col_slug = ''proj1'', col_customer_chat_id = None,
          col_executor_chat_id = Some 100, col_is_active = 1\<rparr>],
       Inr \<lparr>slug = ''proj1'', customer_chat_id = None, executor_chat_id = Some 100,
           is_active = True\<rparr>)"
    by (simp add: create_project_def select_by_slug_def)
  have b: "bind_customer_chat [\<lparr>col_slug = ''proj1'', col_customer_chat_id = None,
      col_executor_chat_id = Some 100, col_is_active = 1\<rparr>] ''proj1'' 200 =
      ([\<lparr>col_slug = ''proj1'', col_customer_chat_id = Some 200,
          col_executor_chat_id = Some 100, col_is_active = 1\<rparr>],
       Inr \<lparr>slug = ''proj1'', customer_chat_id = Some 200,
           executor_chat_id = Some 100, is_active = True\<rparr>)"
    by (simp add: bind_customer_chat_def find_by_slug_def select_by_slug_def
        update_customer_def
          row_to_project_def)
  have c: "(100 :: chat_id) \<noteq> 200"
    by simp
  note t = bound_pair_lookup_and_routing [OF a b c]
  note fe = t [THEN conjunct2, THEN conjunct1]
  note fc = t [THEN conjunct2, THEN conjunct2, THEN conjunct1]
  note re = t [THEN conjunct2, THEN conjunct2, THEN conjunct2, THEN conjunct2,
      THEN conjunct2,
               THEN conjunct1, rule_format, where update = ?u1 and message = ?m1]
  note rc = t [THEN conjunct2, THEN conjunct2, THEN conjunct2, THEN conjunct2,
      THEN conjunct2,
               THEN conjunct2, THEN conjunct1, rule_format,
                   where update = ?u2 and message = ?m2]
  have r1: "relay_message (\<lambda>k. True) ?u1 [\<lparr>col_slug = ''proj1'',
      col_customer_chat_id = Some 200, col_executor_chat_id = Some 100,
      col_is_active = 1\<rparr>] =
     [SendMessage 200 (prefix_executor @ ''hi'')]"
    using re [of "\<lambda>k. True"] by (simp add: forward_call_def)
  have r2: "relay_message (\<lambda>k. True) ?u2 [\<lparr>col_slug = ''proj1'',
      col_customer_chat_id = Some 200, col_executor_chat_id = Some 100,
      col_is_active = 1\<rparr>] =
     [SendDocument 100 ''file1'' caption_customer]"
    using rc [of "\<lambda>k. True"] by (simp add: forward_call_def)
  show ?thesis
    by (rule conjI [OF fe conjI [OF fc conjI [OF r1 r2]]])
qed



text \<open>
  C10. A message, not sent by a bot, from a chat whose first matching row holds 0 in the
  column of the other side: \<open>relay_message\<close> answers the sender with the no-pairing
  notice and issues no forwarding call, whatever the transport would do. The test
  \<^verbatim>\<open>if not target_chat_id\<close> does not tell the chat 0 from an unbound side.
\<close>

theorem relay_message_zero_target:
  assumes "effective_message update = Some message"
    and "from_user message = None \<or> (\<exists>sender. from_user message = Some sender \<and> is_bot sender = False)"
    and "i < length db"
    and "col_customer_chat_id (db ! i) = Some (msg_chat_id message)
         \<or> col_executor_chat_id (db ! i) = Some (msg_chat_id message)"
    and "\<forall>j < i. col_customer_chat_id (db ! j) \<noteq> Some (msg_chat_id message)
                  \<and> col_executor_chat_id (db ! j) \<noteq> Some (msg_chat_id message)"
    and "(if col_customer_chat_id (db ! i) = Some (msg_chat_id message)
          then col_executor_chat_id (db ! i) else col_customer_chat_id (db ! i)) = Some 0"
  shows "relay_message deliver update db = [ReplyText text_no_pairing]"
proof -
  from assms(3,4,5) have sel: "select_by_chat_id db (msg_chat_id message) = Some (db ! i)"
    by (rule select_by_chat_id_first)
  from assms(2) have nb: "(case from_user message of None \<Rightarrow> False | Some sender \<Rightarrow> is_bot sender) = False"
    by (auto split: option.splits)
  from assms(6) have tgt:
    "target_chat_id (row_to_project (db ! i))
       (if customer_chat_id (row_to_project (db ! i)) = Some (msg_chat_id message)
        then ''customer'' else ''executor'') = Some 0"
    by (simp add: target_chat_id_def row_to_project_def split: if_splits)
  show ?thesis
    using assms(1) nb sel tgt
    by (simp add: relay_message_def find_by_chat_id_def Let_def)
qed

theorem relay_message_zero_target_witness:
  "relay_message (\<lambda>c. True)
     \<lparr>effective_user = Some \<lparr>user_id = 7, is_bot = False\<rparr>,
         effective_chat = Some 200, effective_message = Some \<lparr>msg_chat_id = 200,
         from_user = Some \<lparr>user_id = 7, is_bot = False\<rparr>,
         msg_text = Some ''hi'', msg_caption = None, document = None, photo = [],
         voice = None, audio = None, video = None\<rparr>\<rparr>
     [\<lparr>col_slug = ''alpha'', col_customer_chat_id = Some 20,
         col_executor_chat_id = Some 10, col_is_active = 1\<rparr>,
         \<lparr>col_slug = ''proj1'', col_customer_chat_id = Some 200,
         col_executor_chat_id = Some 0, col_is_active = 1\<rparr>,
         \<lparr>col_slug = ''zeta'', col_customer_chat_id = None,
         col_executor_chat_id = Some 30, col_is_active = 1\<rparr>] =
   [ReplyText text_no_pairing]"
proof -
  let ?m = "\<lparr>msg_chat_id = 200, from_user = Some \<lparr>user_id = 7,
      is_bot = False\<rparr>, msg_text = Some ''hi'', msg_caption = None, document = None,
      photo = [], voice = None, audio = None, video = None\<rparr>"
  let ?u = "\<lparr>effective_user = Some \<lparr>user_id = 7, is_bot = False\<rparr>,
      effective_chat = Some 200, effective_message = Some \<lparr>msg_chat_id = 200,
      from_user = Some \<lparr>user_id = 7, is_bot = False\<rparr>, msg_text = Some ''hi'',
      msg_caption = None, document = None, photo = [], voice = None, audio = None,
      video = None\<rparr>\<rparr>"
  let ?db = "[\<lparr>col_slug = ''alpha'', col_customer_chat_id = Some 20,
      col_executor_chat_id = Some 10, col_is_active = 1\<rparr>,
      \<lparr>col_slug = ''proj1'', col_customer_chat_id = Some 200,
      col_executor_chat_id = Some 0, col_is_active = 1\<rparr>,
      \<lparr>col_slug = ''zeta'', col_customer_chat_id = None,
      col_executor_chat_id = Some 30, col_is_active = 1\<rparr>]"
  have 1: "effective_message ?u = Some ?m"
    by simp
  have 2: "from_user ?m = None \<or> (\<exists>sender. from_user ?m = Some sender \<and>
      is_bot sender = False)"
    by simp
  have 3: "1 < length ?db"
    by simp
  have 4: "col_customer_chat_id (?db ! 1) = Some (msg_chat_id ?m)
           \<or> col_executor_chat_id (?db ! 1) = Some (msg_chat_id ?m)"
    by simp
  have 5: "\<forall>j < 1. col_customer_chat_id (?db ! j) \<noteq> Some (msg_chat_id ?m)
                  \<and> col_executor_chat_id (?db ! j) \<noteq> Some (msg_chat_id ?m)"
    by simp
  have 6: "(if col_customer_chat_id (?db ! 1) = Some (msg_chat_id ?m)
            then col_executor_chat_id (?db ! 1) else col_customer_chat_id (?db ! 1)) = Some
                0"
    by simp
  show ?thesis
    by (rule relay_message_zero_target [OF 1 2 3 4 5 6])
qed

subsection \<open>Captions\<close>

text \<open>
  C1 does not hold of the code. \<open>relay_message\<close> assigns the caption twice: first the
  result of \<open>build_media_caption\<close>, the role label followed by the original caption,
  then the bare role label, which is the one it sends. So the calls issued do not depend
  on the caption of the inbound message. A document with the caption "hello" from the
  executors' chat 100 of a project bound to the customers' chat 200 is forwarded with the
  role label alone, whereas \<open>build_media_caption\<close> gives the label, a line break and
  "hello".
\<close>

theorem relay_message_drops_original_caption:
  "relay_message deliver
      (update\<lparr>effective_message := Some (message\<lparr>msg_caption :=
          original_caption\<rparr>)\<rparr>) db =
    relay_message deliver
      (update\<lparr>effective_message := Some (message\<lparr>msg_caption :=
          None\<rparr>)\<rparr>) db
   \<and> relay_message (\<lambda>k. True)
       \<lparr>effective_user = Some \<lparr>user_id = 7, is_bot = False\<rparr>,
           effective_chat = Some 100, effective_message = Some \<lparr>msg_chat_id = 100,
           from_user = Some \<lparr>user_id = 7, is_bot = False\<rparr>, msg_text = None,
           msg_caption = Some ''hello'', document = Some ''file1'', photo = [],
           voice = None, audio = None, video = None\<rparr>\<rparr>
       [\<lparr>col_slug = ''proj1'', col_customer_chat_id = Some 200,
           col_executor_chat_id = Some 100, col_is_active = 1\<rparr>] =
     [SendDocument 200 ''file1'' caption_executor]
   \<and> build_media_caption ''executor'' (Some ''hello'') = caption_executor @ [CHR 0x0A]
       @ ''hello''
   \<and> [SendDocument 200 ''file1'' caption_executor] \<noteq>
       [SendDocument 200 ''file1'' (build_media_caption ''executor'' (Some ''hello''))]"
proof -
  have a: "relay_message deliver
      (update\<lparr>effective_message := Some (message\<lparr>msg_caption :=
          original_caption\<rparr>)\<rparr>) db =
    relay_message deliver
      (update\<lparr>effective_message := Some (message\<lparr>msg_caption :=
          None\<rparr>)\<rparr>) db"
    by (simp add: relay_message_def forward_call_def Let_def split: option.splits prod.splits)
  have b: "relay_message (\<lambda>k. True)
       \<lparr>effective_user = Some \<lparr>user_id = 7, is_bot = False\<rparr>,
           effective_chat = Some 100, effective_message = Some \<lparr>msg_chat_id = 100,
           from_user = Some \<lparr>user_id = 7, is_bot = False\<rparr>, msg_text = None,
           msg_caption = Some ''hello'', document = Some ''file1'', photo = [],
           voice = None, audio = None, video = None\<rparr>\<rparr>
       [\<lparr>col_slug = ''proj1'', col_customer_chat_id = Some 200,
           col_executor_chat_id = Some 100, col_is_active = 1\<rparr>] =
     [SendDocument 200 ''file1'' caption_executor]"
    by (simp add: relay_message_def find_by_chat_id_def select_by_chat_id_def
        row_to_project_def
          target_chat_id_def forward_call_def caption_for_role_def Let_def)
  have c: "build_media_caption ''executor'' (Some ''hello'') =
      caption_executor @ [CHR 0x0A] @ ''hello''"
    by (simp add: build_media_caption_def caption_for_role_def)
  have d: "[SendDocument 200 ''file1'' caption_executor] \<noteq>
       [SendDocument 200 ''file1'' (build_media_caption ''executor'' (Some ''hello''))]"
    by (simp add: c)
  from a b c d show ?thesis by (intro conjI)
qed

section \<open>Properties of the command handlers\<close>

text \<open>
  C2, as the code has it. When the update carries no user, or a user whose id is not the
  configured administrator's, the handlers of \<^verbatim>\<open>create_project\<close>,
  \<^verbatim>\<open>bind_customer\<close>, \<^verbatim>\<open>list_projects\<close> and \<^verbatim>\<open>unlink_project\<close> leave the
  store as it was, raise nothing, and issue at most the refusal (exactly the refusal when
  there is a message to answer): the action is not reached. The handler of
  \<^verbatim>\<open>project_info\<close> is outside this gate: its outcome does not depend on the user
  of the update at all.
\<close>

theorem admin_commands_refuse_other_users:
  assumes "\<forall>user. effective_user update = Some user \<longrightarrow> user_id user
      \<noteq> admin_user_id config"
  shows "create_project_handler update args config db =
           (db, (case effective_message update of
                   None \<Rightarrow> [] | Some message \<Rightarrow> [ReplyText
                       text_admin_only]), None)
       \<and> bind_customer_handler update args config db =
           (db, (case effective_message update of
                   None \<Rightarrow> [] | Some message \<Rightarrow> [ReplyText
                       text_admin_only]), None)
       \<and> list_projects_handler update args config db =
           (db, (case effective_message update of
                   None \<Rightarrow> [] | Some message \<Rightarrow> [ReplyText
                       text_admin_only]), None)
       \<and> unlink_project_handler update args config db =
           (db, (case effective_message update of
                   None \<Rightarrow> [] | Some message \<Rightarrow> [ReplyText
                       text_admin_only]), None)
       \<and> project_info_handler (update\<lparr>effective_user := anyone\<rparr>) args db
           =
           project_info_handler update args db"
proof -
  from assms have na: "is_admin update config = False"
    by (auto simp: is_admin_def split: option.splits)
  then have ea: "ensure_admin update config =
      (False, (case effective_message update of
                 None \<Rightarrow> [] | Some message \<Rightarrow> [ReplyText
                     text_admin_only]))"
    by (simp add: ensure_admin_def split: option.splits)
  have 1: "create_project_handler update args config db =
           (db, (case effective_message update of
                   None \<Rightarrow> [] | Some message \<Rightarrow> [ReplyText
                       text_admin_only]), None)"
    by (simp add: create_project_handler_def ea)
  have 2: "bind_customer_handler update args config db =
           (db, (case effective_message update of
                   None \<Rightarrow> [] | Some message \<Rightarrow> [ReplyText
                       text_admin_only]), None)"
    by (simp add: bind_customer_handler_def ea)
  have 3: "list_projects_handler update args config db =
           (db, (case effective_message update of
                   None \<Rightarrow> [] | Some message \<Rightarrow> [ReplyText
                       text_admin_only]), None)"
    by (simp add: list_projects_handler_def ea)
  have 4: "unlink_project_handler update args config db =
           (db, (case effective_message update of
                   None \<Rightarrow> [] | Some message \<Rightarrow> [ReplyText
                       text_admin_only]), None)"
    by (simp add: unlink_project_handler_def ea)
  have 5: "project_info_handler (update\<lparr>effective_user := anyone\<rparr>) args db =
           project_info_handler update args db"
    by (simp add: project_info_handler_def reply_def split: option.splits prod.splits)
  from 1 2 3 4 5 show ?thesis by (intro conjI)
qed

theorem admin_commands_refuse_other_users_witness:
  "create_project_handler
       \<lparr>effective_user = Some \<lparr>user_id = 7, is_bot = False\<rparr>,
           effective_chat = Some 300, effective_message = Some \<lparr>msg_chat_id = 300,
           from_user = Some \<lparr>user_id = 7, is_bot = False\<rparr>,
           msg_text = Some ''/create_project new'', msg_caption = None, document = None,
           photo = [], voice = None, audio = None, video = None\<rparr>\<rparr>
       [''new''] \<lparr>bot_token = ''token'', admin_user_id = 1,
           db_path = ''projects.db''\<rparr>
       [\<lparr>col_slug = ''alpha'', col_customer_chat_id = Some 20,
           col_executor_chat_id = Some 10, col_is_active = 1\<rparr>,
           \<lparr>col_slug = ''proj1'', col_customer_chat_id = Some 200,
           col_executor_chat_id = Some 100, col_is_active = 1\<rparr>] =
     ([\<lparr>col_slug = ''alpha'', col_customer_chat_id = Some 20,
         col_executor_chat_id = Some 10, col_is_active = 1\<rparr>,
         \<lparr>col_slug = ''proj1'', col_customer_chat_id = Some 200,
         col_executor_chat_id = Some 100, col_is_active = 1\<rparr>],
      [ReplyText text_admin_only], None)
   \<and> unlink_project_handler
       \<lparr>effective_user = Some \<lparr>user_id = 7, is_bot = False\<rparr>,
           effective_chat = Some 300, effective_message = Some \<lparr>msg_chat_id = 300,
           from_user = Some \<lparr>user_id = 7, is_bot = False\<rparr>,
           msg_text = Some ''/create_project new'', msg_caption = None, document = None,
           photo = [], voice = None, audio = None, video = None\<rparr>\<rparr>
       [''proj1''] \<lparr>bot_token = ''token'', admin_user_id = 1,
           db_path = ''projects.db''\<rparr>
       [\<lparr>col_slug = ''alpha'', col_customer_chat_id = Some 20,
           col_executor_chat_id = Some 10, col_is_active = 1\<rparr>,
           \<lparr>col_slug = ''proj1'', col_customer_chat_id = Some 200,
           col_executor_chat_id = Some 100, col_is_active = 1\<rparr>] =
     ([\<lparr>col_slug = ''alpha'', col_customer_chat_id = Some 20,
         col_executor_chat_id = Some 10, col_is_active = 1\<rparr>,
         \<lparr>col_slug = ''proj1'', col_customer_chat_id = Some 200,
         col_executor_chat_id = Some 100, col_is_active = 1\<rparr>],
      [ReplyText text_admin_only], None)"
proof -
  let ?u = "\<lparr>effective_user = Some \<lparr>user_id = 7, is_bot = False\<rparr>,
      effective_chat = Some 300, effective_message = Some \<lparr>msg_chat_id = 300,
      from_user = Some \<lparr>user_id = 7, is_bot = False\<rparr>,
      msg_text = Some ''/create_project new'', msg_caption = None, document = None,
      photo = [], voice = None, audio = None, video = None\<rparr>\<rparr>"
  let ?cfg = "\<lparr>bot_token = ''token'', admin_user_id = 1,
      db_path = ''projects.db''\<rparr>"
  have h: "\<forall>user. effective_user ?u = Some user \<longrightarrow> user_id user
      \<noteq> admin_user_id ?cfg"
    by simp
  note t = admin_commands_refuse_other_users [OF h]
  have a: "create_project_handler ?u [''new''] ?cfg
       [\<lparr>col_slug = ''alpha'', col_customer_chat_id = Some 20,
           col_executor_chat_id = Some 10, col_is_active = 1\<rparr>,
           \<lparr>col_slug = ''proj1'', col_customer_chat_id = Some 200,
           col_executor_chat_id = Some 100, col_is_active = 1\<rparr>] =
     ([\<lparr>col_slug = ''alpha'', col_customer_chat_id = Some 20,
         col_executor_chat_id = Some 10, col_is_active = 1\<rparr>,
         \<lparr>col_slug = ''proj1'', col_customer_chat_id = Some 200,
         col_executor_chat_id = Some 100, col_is_active = 1\<rparr>],
      [ReplyText text_admin_only], None)"
    using t [THEN conjunct1, of "[''new'']"] by simp
  have b: "unlink_project_handler ?u [''proj1''] ?cfg
       [\<lparr>col_slug = ''alpha'', col_customer_chat_id = Some 20,
           col_executor_chat_id = Some 10, col_is_active = 1\<rparr>,
           \<lparr>col_slug = ''proj1'', col_customer_chat_id = Some 200,
           col_executor_chat_id = Some 100, col_is_active = 1\<rparr>] =
     ([\<lparr>col_slug = ''alpha'', col_customer_chat_id = Some 20,
         col_executor_chat_id = Some 10, col_is_active = 1\<rparr>,
         \<lparr>col_slug = ''proj1'', col_customer_chat_id = Some 200,
         col_executor_chat_id = Some 100, col_is_active = 1\<rparr>],
      [ReplyText text_admin_only], None)"
    using t [THEN conjunct2, THEN conjunct2, THEN conjunct2, THEN conjunct1,
        of "[''proj1'']"]
    by simp
  show ?thesis
    by (rule conjI [OF a b])
qed

text \<open>
  C2 as stated fails for \<^verbatim>\<open>project_info\<close>. The user 7 is not the administrator 1,
  and the handler still answers with the project, the role and the status of the chat 200.
\<close>

theorem project_info_handler_not_gated_counterexample:
  "is_admin
       \<lparr>effective_user = Some \<lparr>user_id = 7, is_bot = False\<rparr>,
           effective_chat = Some 200, effective_message = Some \<lparr>msg_chat_id = 200,
           from_user = Some \<lparr>user_id = 7, is_bot = False\<rparr>,
           msg_text = Some ''/project_info'', msg_caption = None, document = None,
           photo = [], voice = None, audio = None, video = None\<rparr>\<rparr>
       \<lparr>bot_token = ''token'', admin_user_id = 1,
           db_path = ''projects.db''\<rparr> = False
   \<and> project_info_handler
       \<lparr>effective_user = Some \<lparr>user_id = 7, is_bot = False\<rparr>,
           effective_chat = Some 200, effective_message = Some \<lparr>msg_chat_id = 200,
           from_user = Some \<lparr>user_id = 7, is_bot = False\<rparr>,
           msg_text = Some ''/project_info'', msg_caption = None, document = None,
           photo = [], voice = None, audio = None, video = None\<rparr>\<rparr>
       [] [\<lparr>col_slug = ''alpha'', col_customer_chat_id = Some 20,
           col_executor_chat_id = Some 10, col_is_active = 1\<rparr>,
           \<lparr>col_slug = ''proj1'', col_customer_chat_id = Some 200,
           col_executor_chat_id = Some 100, col_is_active = 1\<rparr>] =
     ([\<lparr>col_slug = ''alpha'', col_customer_chat_id = Some 20,
         col_executor_chat_id = Some 10, col_is_active = 1\<rparr>,
         \<lparr>col_slug = ''proj1'', col_customer_chat_id = Some 200,
         col_executor_chat_id = Some 100, col_is_active = 1\<rparr>],
      [ReplyText (text_info_project @ ''proj1'' @ text_info_chat_type @ text_customers_chat
                    @ text_info_status @ text_active)],
      None)"
  by (simp add: is_admin_def project_info_handler_def find_by_chat_id_def
      select_by_chat_id_def
        row_to_project_def reply_def)

end
